theory Spec2Isabelle
  imports Complex_Main "HOL-Library.Word"
begin

text \<open>
  A model of \<^verbatim>\<open>simple_offboard.cpp\<close>, the node that turns high-level commands (navigate,
  set position, velocity, attitude or rates, land) into the stream of setpoints an autopilot
  in \<^verbatim>\<open>OFFBOARD\<close> mode expects. The global variables of the node are the fields of one state
  record, each function of the source is a function on that state, an exception is a result
  of its own, and what lies outside the repository (ROS time and spinning, the transform
  buffer, the autopilot's services, tf and GeographicLib functions) is a parameter of the
  state. The properties proved afterwards are those numbered C1 to C10.
\<close>

section \<open>Numbers and time\<close>

text \<open>
  The node computes with C++ \<^verbatim>\<open>float\<close> and \<^verbatim>\<open>double\<close>. Their special values decide
  several branches of the code (\<^verbatim>\<open>std::isnan(yaw)\<close>, \<^verbatim>\<open>std::isinf(yaw)\<close>, a division by a zero
  distance), so they are part of the model: a value is a finite number, one of the two
  infinities, or NaN. The arithmetic on special values follows IEEE 754. Finite values are
  idealised as real numbers: rounding, overflow, underflow and the sign of zero are not
  modelled (a zero divisor counts as \<open>+0\<close>), and \<^verbatim>\<open>float\<close> and \<^verbatim>\<open>double\<close> are one type.
\<close>

datatype fp = Fin real | PInf | NInf | NaN

instantiation fp :: "{plus, minus, times, inverse}"
begin

fun plus_fp :: "fp \<Rightarrow> fp \<Rightarrow> fp" where
  "plus_fp NaN b = NaN"
| "plus_fp a NaN = NaN"
| "plus_fp (Fin a) (Fin b) = Fin (a + b)"
| "plus_fp (Fin a) b = b"
| "plus_fp PInf NInf = NaN"
| "plus_fp NInf PInf = NaN"
| "plus_fp a b = a"

fun fneg :: "fp \<Rightarrow> fp" where
  "fneg (Fin a) = Fin (- a)"
| "fneg PInf = NInf"
| "fneg NInf = PInf"
| "fneg NaN = NaN"

definition minus_fp :: "fp \<Rightarrow> fp \<Rightarrow> fp" where
  "minus_fp a b = (a::fp) + fneg b"

fun times_fp :: "fp \<Rightarrow> fp \<Rightarrow> fp" where
  "times_fp NaN b = NaN"
| "times_fp a NaN = NaN"
| "times_fp (Fin a) (Fin b) = Fin (a * b)"
| "times_fp (Fin a) b = (if a = 0 then NaN else if 0 < a then b else fneg b)"
| "times_fp a (Fin b) = (if b = 0 then NaN else if 0 < b then a else fneg a)"
| "times_fp a b = (if a = b then PInf else NInf)"

fun divide_fp :: "fp \<Rightarrow> fp \<Rightarrow> fp" where
  "divide_fp NaN b = NaN"
| "divide_fp a NaN = NaN"
| "divide_fp (Fin a) (Fin b) =
     (if b = 0 then (if a = 0 then NaN else if 0 < a then PInf else NInf) else Fin (a / b))"
| "divide_fp (Fin a) b = Fin 0"
| "divide_fp a (Fin b) = (if 0 \<le> b then a else fneg a)"
| "divide_fp a b = NaN"

definition inverse_fp :: "fp \<Rightarrow> fp" where
  "inverse_fp a = divide (Fin 1) (a::fp)"

instance ..

end

text \<open>The comparisons of C++: every comparison with NaN is false, but \<^verbatim>\<open>!=\<close>, which is true.\<close>

fun flt :: "fp \<Rightarrow> fp \<Rightarrow> bool" where
  "flt NaN b = False"
| "flt a NaN = False"
| "flt (Fin a) (Fin b) = (a < b)"
| "flt a PInf = (a \<noteq> PInf)"
| "flt NInf b = (b \<noteq> NInf)"
| "flt a b = False"

definition feq :: "fp \<Rightarrow> fp \<Rightarrow> bool" where
  "feq a b = (a \<noteq> NaN \<and> b \<noteq> NaN \<and> a = b)"

definition isnan :: "fp \<Rightarrow> bool" where
  "isnan a = (a = NaN)"

definition isinf :: "fp \<Rightarrow> bool" where
  "isinf a = (a = PInf \<or> a = NInf)"

text \<open>\<^verbatim>\<open>std::min(a, b)\<close> is \<^verbatim>\<open>(b < a) ? b : a\<close>: a NaN first argument is returned as it is.\<close>

definition fmin :: "fp \<Rightarrow> fp \<Rightarrow> fp" where
  "fmin a b = (if flt b a then b else a)"

fun fsqrt :: "fp \<Rightarrow> fp" where
  "fsqrt (Fin a) = (if a < 0 then NaN else Fin (sqrt a))"
| "fsqrt PInf = PInf"
| "fsqrt a = NaN"

fun fsin :: "fp \<Rightarrow> fp" where
  "fsin (Fin a) = Fin (sin a)"
| "fsin a = NaN"

fun fcos :: "fp \<Rightarrow> fp" where
  "fcos (Fin a) = Fin (cos a)"
| "fcos a = NaN"

text \<open>
  \<^verbatim>\<open>ros::Time\<close> and \<^verbatim>\<open>ros::Duration\<close> count nanoseconds; both are integers here, and
  \<^verbatim>\<open>toSec\<close> reads a duration in seconds.
\<close>

type_synonym time = int

definition toSec :: "time \<Rightarrow> fp" where
  "toSec d = Fin (real_of_int d / 1000000000)"

section \<open>Messages\<close>

text \<open>
  A stamped ROS message is its header and its content, the fields beside the header:
  \<^verbatim>\<open>m.header.stamp\<close> is \<open>stamp (header m)\<close>, and \<^verbatim>\<open>p.pose.position.x\<close> of a
  \<^verbatim>\<open>PoseStamped\<close> is \<open>cx (position (content p))\<close>.
\<close>

record Header =
  stamp :: time
  frame_id :: string

record 'a Stamped =
  header :: Header
  content :: 'a

text \<open>\<^verbatim>\<open>geometry_msgs::Point\<close> and \<^verbatim>\<open>geometry_msgs::Vector3\<close>: three coordinates.\<close>

record xyz =
  cx :: fp
  cy :: fp
  cz :: fp

record Quaternion =
  qx :: fp
  qy :: fp
  qz :: fp
  qw :: fp

record Pose =
  position :: xyz
  orientation :: Quaternion

record Twist =
  twist_linear :: xyz
  twist_angular :: xyz

record State =
  state_connected :: bool
  state_armed :: bool
  state_mode :: string

record NavSatFix =
  latitude :: fp
  longitude :: fp
  altitude :: fp

record BatteryState =
  voltage :: fp
  cell_voltage :: "fp list"

record PositionTarget =
  pt_coordinate_frame :: "8 word"
  pt_type_mask :: "16 word"
  pt_position :: xyz
  pt_velocity :: xyz
  pt_acceleration_or_force :: xyz
  pt_yaw :: fp
  pt_yaw_rate :: fp

record AttitudeTarget =
  at_type_mask :: "8 word"
  at_orientation :: Quaternion
  at_body_rate :: xyz
  at_thrust :: fp

record Transform =
  child_frame_id :: string
  translation :: xyz
  rotation :: Quaternion

type_synonym PoseStamped = "Pose Stamped"
type_synonym Vector3Stamped = "xyz Stamped"
type_synonym TwistStamped = "Twist Stamped"
type_synonym TransformStamped = "Transform Stamped"

text \<open>
  The constants of \<^verbatim>\<open>mavros_msgs/PositionTarget\<close> and \<^verbatim>\<open>mavros_msgs/AttitudeTarget\<close>, with the
  values those message definitions give them (the messages belong to mavros, not to this
  repository).
\<close>

definition IGNORE_PX :: "16 word" where "IGNORE_PX = 1"
definition IGNORE_PY :: "16 word" where "IGNORE_PY = 2"
definition IGNORE_PZ :: "16 word" where "IGNORE_PZ = 4"
definition IGNORE_VX :: "16 word" where "IGNORE_VX = 8"
definition IGNORE_VY :: "16 word" where "IGNORE_VY = 16"
definition IGNORE_VZ :: "16 word" where "IGNORE_VZ = 32"
definition IGNORE_AFX :: "16 word" where "IGNORE_AFX = 64"
definition IGNORE_AFY :: "16 word" where "IGNORE_AFY = 128"
definition IGNORE_AFZ :: "16 word" where "IGNORE_AFZ = 256"
definition IGNORE_YAW :: "16 word" where "IGNORE_YAW = 1024"
definition IGNORE_YAW_RATE :: "16 word" where "IGNORE_YAW_RATE = 2048"
definition FRAME_LOCAL_NED :: "8 word" where "FRAME_LOCAL_NED = 1"
definition IGNORE_ATTITUDE :: "8 word" where "IGNORE_ATTITUDE = 128"

datatype setpoint_type_t = NONE | NAVIGATE | NAVIGATE_GLOBAL | POSITION | VELOCITY | ATTITUDE | RATES

datatype setpoint_yaw_type_t = YAW | YAW_RATE | TOWARDS

section \<open>The node and its surroundings\<close>

text \<open>
  What the node sends: a message on one of its publishers, or a transform through the
  transform broadcaster.
\<close>

datatype outgoing =
    Position_pub PoseStamped
  | Position_raw_pub "PositionTarget Stamped"
  | Attitude_pub PoseStamped
  | Attitude_raw_pub "AttitudeTarget Stamped"
  | Thrust_pub "fp Stamped"
  | SendTransform TransformStamped

text \<open>
  The transform buffer is outside the repository. It is a record of the four queries the
  node makes; a query that throws \<^verbatim>\<open>tf2::TransformException\<close> returns \<open>Inl\<close> of the
  exception's \<^verbatim>\<open>what()\<close>. The last
  argument of the two \<open>transform\<close> queries is the timeout the caller passes (0 when it
  passes none).
\<close>

record tf_buffer_t =
  canTransform :: "string \<Rightarrow> string \<Rightarrow> time \<Rightarrow> bool"
  transformPose :: "PoseStamped \<Rightarrow> string \<Rightarrow> time \<Rightarrow> string + PoseStamped"
  transformVector :: "Vector3Stamped \<Rightarrow> string \<Rightarrow> time \<Rightarrow> string + Vector3Stamped"
  lookupTransform :: "string \<Rightarrow> string \<Rightarrow> time \<Rightarrow> string + TransformStamped"

text \<open>
  The library functions the node calls, also outside the repository: the quaternion
  and angle helpers of tf, \<^verbatim>\<open>atan2\<close>, \<^verbatim>\<open>std::to_string\<close>, and
  \<^verbatim>\<open>GeographicLib::Geodesic::WGS84().Inverse(lat1, lon1, lat2, lon2, s12, azi1, azi2)\<close>,
  which returns its three output arguments in their order.
\<close>

record library =
  createQuaternionMsgFromRollPitchYaw :: "fp \<Rightarrow> fp \<Rightarrow> fp \<Rightarrow> Quaternion"
  getYaw :: "Quaternion \<Rightarrow> fp"
  getEulerYPR :: "Quaternion \<Rightarrow> fp \<times> fp \<times> fp"
  atan2 :: "fp \<Rightarrow> fp \<Rightarrow> fp"
  to_string :: "fp \<Rightarrow> string"
  Inverse :: "fp \<Rightarrow> fp \<Rightarrow> fp \<Rightarrow> fp \<Rightarrow> fp \<times> fp \<times> fp"

text \<open>The parameters, read once in \<^verbatim>\<open>main\<close>.\<close>

record params =
  local_frame :: string
  fcu_frame :: string
  transform_timeout :: time
  telemetry_transform_timeout :: time
  offboard_timeout :: time
  land_timeout :: time
  arming_timeout :: time
  local_position_timeout :: time
  state_timeout :: time
  velocity_timeout :: time
  global_position_timeout :: time
  battery_timeout :: time
  default_speed :: fp
  land_only_in_offboard :: bool
  reference_frames :: "string \<rightharpoonup> string"

text \<open>
  What a callback queue delivers when the node spins: a telemetry message, a tick of the
  setpoint timer (with \<^verbatim>\<open>event.current_real\<close>), a new content of the transform buffer, or a
  shutdown request, after which \<^verbatim>\<open>ros::ok()\<close> is false. Service requests that arrive while a
  handler spins are not part of an event list: a theorem about them calls the handler in a
  state where \<open>busy\<close> holds.
\<close>

datatype event =
    StateMsg "State Stamped"
  | StatusTextMsg "string Stamped"
  | LocalPositionMsg PoseStamped
  | VelocityMsg TwistStamped
  | GlobalPositionMsg "NavSatFix Stamped"
  | BatteryMsg "BatteryState Stamped"
  | TimerEvent time
  | TfUpdate tf_buffer_t
  | Shutdown

text \<open>
  The state: the global variables of the source under their names, and the surroundings
  the node reads and writes.
  \<^item> \<open>now\<close> is \<^verbatim>\<open>ros::Time::now()\<close>. Time passes only while the node sleeps: each
    \<^verbatim>\<open>r.sleep()\<close> takes the next entry of \<open>sleeps\<close> and adds it to \<open>now\<close>.
  \<^item> \<open>pending\<close> holds, for each coming \<^verbatim>\<open>ros::spinOnce()\<close>, the events it delivers.
  \<^item> \<open>set_mode_srv\<close> answers \<^verbatim>\<open>set_mode.call\<close> for a custom mode: whether the call
    succeeded, and the response's \<^verbatim>\<open>mode_sent\<close>. \<open>arming_srv\<close> answers \<^verbatim>\<open>arming.call\<close>.
  \<^item> \<open>timer_running\<close> tells whether \<^verbatim>\<open>setpoint_timer\<close> is started.
  \<^item> \<open>sent\<close> lists what the node has sent, latest first.
  \<^item> \<open>serve_ps\<close> is the \<^verbatim>\<open>static PoseStamped ps\<close> of \<^verbatim>\<open>serve\<close>, which keeps its
    content from one call to the next.
\<close>

record world =
  par :: params
  lib :: library
  tf_buffer :: tf_buffer_t
  now :: time
  ok :: bool
  sleeps :: "time list"
  pending :: "event list list"
  set_mode_srv :: "string \<Rightarrow> bool \<times> bool"
  arming_srv :: "bool \<Rightarrow> bool"
  sent :: "outgoing list"
  timer_running :: bool
  position_msg :: PoseStamped
  position_raw_msg :: "PositionTarget Stamped"
  att_raw_msg :: "AttitudeTarget Stamped"
  thrust_msg :: "fp Stamped"
  rates_msg :: TwistStamped
  target :: TransformStamped
  body :: TransformStamped
  serve_ps :: PoseStamped
  nav_start :: PoseStamped
  setpoint_position :: PoseStamped
  setpoint_position_transformed :: PoseStamped
  setpoint_velocity :: Vector3Stamped
  setpoint_velocity_transformed :: Vector3Stamped
  setpoint_yaw_rate :: fp
  nav_speed :: fp
  busy :: bool
  wait_armed :: bool
  setpoint_type :: setpoint_type_t
  setpoint_yaw_type :: setpoint_yaw_type_t
  state :: "State Stamped"
  statustext :: "string Stamped"
  local_position :: PoseStamped
  velocity :: TwistStamped
  global_position :: "NavSatFix Stamped"
  battery :: "BatteryState Stamped"

text \<open>
  How a call ends: it returns a value, it throws a \<^verbatim>\<open>std::exception\<close> with this \<^verbatim>\<open>what()\<close>,
  it flows off the end of a function that must return a value (undefined behaviour in
  C++), or it is still waiting in a loop when \<open>sleeps\<close> is used up, so that the state says
  nothing about how it goes on.
\<close>

datatype 'a res = Ok 'a | Throw string | Undefined | Stuck

section \<open>Telemetry callbacks\<close>

definition publishBodyFrame :: "world \<Rightarrow> world" where
  "publishBodyFrame w =
     (if child_frame_id (content (body w)) = [] then w
      else
        let q = createQuaternionMsgFromRollPitchYaw (lib w) (Fin 0) (Fin 0)
                  (getYaw (lib w) (orientation (content (local_position w))));
            b = \<lparr>header = \<lparr>stamp = stamp (header (local_position w)),
                             frame_id = frame_id (header (local_position w))\<rparr>,
                 content = (content (body w))
                   \<lparr>translation := position (content (local_position w)), rotation := q\<rparr>\<rparr>
        in w\<lparr>body := b, sent := SendTransform b # sent w\<rparr>)"

definition handleLocalPosition :: "PoseStamped \<Rightarrow> world \<Rightarrow> world" where
  "handleLocalPosition pose w = publishBodyFrame (w\<lparr>local_position := pose\<rparr>)"

text \<open>\<^verbatim>\<open>#define TIMEOUT(msg, timeout) (ros::Time::now() - msg.header.stamp > timeout)\<close>\<close>

definition TIMEOUT :: "world \<Rightarrow> 'a Stamped \<Rightarrow> time \<Rightarrow> bool" where
  "TIMEOUT w msg timeout = (now w - stamp (header msg) > timeout)"

section \<open>The publisher\<close>

definition hypot :: "fp \<Rightarrow> fp \<Rightarrow> fp \<Rightarrow> fp" where
  "hypot a b c = fsqrt (a * a + b * b + c * c)"

definition getDistance :: "xyz \<Rightarrow> xyz \<Rightarrow> fp" where
  "getDistance from to = hypot (cx from - cx to) (cy from - cy to) (cz from - cz to)"

text \<open>
  \<^verbatim>\<open>getNavigateSetpoint\<close> writes the point through its reference argument, which
  \<^verbatim>\<open>publish\<close> binds to \<^verbatim>\<open>position_msg.pose.position\<close>: here it returns the point, with the
  state in which \<open>nav_start\<close> may have a new stamp.
\<close>

definition getNavigateSetpoint :: "time \<Rightarrow> fp \<Rightarrow> world \<Rightarrow> xyz \<times> world" where
  "getNavigateSetpoint stmp speed w0 =
     (let w = (if wait_armed w0
               then w0\<lparr>nav_start := (nav_start w0)\<lparr>header := (header (nav_start w0))\<lparr>stamp := stmp\<rparr>\<rparr>\<rparr>
               else w0);
          start = position (content (nav_start w));
          goal = position (content (setpoint_position_transformed w));
          distance = getDistance start goal;
          time = distance / speed;
          passed = fmin (toSec (stmp - stamp (header (nav_start w))) / time) (Fin 1)
      in (\<lparr>cx = cx start + (cx goal - cx start) * passed,
           cy = cy start + (cy goal - cy start) * passed,
           cz = cz start + (cz goal - cz start) * passed\<rparr>, w))"

text \<open>
  The \<^verbatim>\<open>try\<close> block of \<^verbatim>\<open>publish\<close>: the stamps are set before each transform, a transform
  that throws leaves its output as it was, and the velocity is not reached when the
  position's transform has thrown.
\<close>

definition publish_transform :: "time \<Rightarrow> world \<Rightarrow> world" where
  "publish_transform stmp w0 =
     (let ty = setpoint_type w0;
          lf = local_frame (par w0);
          (thrown, w1) =
            (if ty = NAVIGATE \<or> ty = NAVIGATE_GLOBAL \<or> ty = POSITION \<or> ty = VELOCITY \<or> ty = ATTITUDE
             then
               let sp = (setpoint_position w0)\<lparr>header := (header (setpoint_position w0))\<lparr>stamp := stmp\<rparr>\<rparr>;
                   w = w0\<lparr>setpoint_position := sp\<rparr>
               in (case transformPose (tf_buffer w) sp lf 50000000 of
                     Inl e \<Rightarrow> (True, w)
                   | Inr p \<Rightarrow> (False, w\<lparr>setpoint_position_transformed := p\<rparr>))
             else (False, w0))
      in if \<not> thrown \<and> ty = VELOCITY
         then
           let sv = (setpoint_velocity w1)\<lparr>header := (header (setpoint_velocity w1))\<lparr>stamp := stmp\<rparr>\<rparr>;
               w = w1\<lparr>setpoint_velocity := sv\<rparr>
           in (case transformVector (tf_buffer w) sv lf 50000000 of
                 Inl e \<Rightarrow> w
               | Inr v \<Rightarrow> w\<lparr>setpoint_velocity_transformed := v\<rparr>)
         else w1)"

definition publish_target :: "world \<Rightarrow> world" where
  "publish_target w =
     (let ty = setpoint_type w in
      if child_frame_id (content (target w)) \<noteq> [] \<and>
         (ty = NAVIGATE \<or> ty = NAVIGATE_GLOBAL \<or> ty = POSITION)
      then
        let t = \<lparr>header = header (setpoint_position_transformed w),
                 content = (content (target w))
                   \<lparr>translation := position (content (setpoint_position_transformed w)),
                    rotation := orientation (content (setpoint_position_transformed w))\<rparr>\<rparr>
        in w\<lparr>target := t, sent := SendTransform t # sent w\<rparr>
      else w)"

definition publish_navigate :: "time \<Rightarrow> world \<Rightarrow> world" where
  "publish_navigate stmp w0 =
     (let (p, w) = getNavigateSetpoint stmp (nav_speed w0) w0;
          q = (if setpoint_yaw_type w = TOWARDS
               then createQuaternionMsgFromRollPitchYaw (lib w) (Fin 0) (Fin 0)
                      (atan2 (lib w) (cy p - cy (position (content (nav_start w))))
                                     (cx p - cx (position (content (nav_start w)))))
               else orientation (content (setpoint_position_transformed w)))
      in w\<lparr>position_msg := (position_msg w)\<lparr>content := \<lparr>position = p, orientation = q\<rparr>\<rparr>\<rparr>)"

definition publish_position :: "time \<Rightarrow> world \<Rightarrow> world" where
  "publish_position stmp w =
     (if setpoint_yaw_type w = YAW \<or> setpoint_yaw_type w = TOWARDS
      then
        let m = (position_msg w)\<lparr>header := (header (position_msg w))\<lparr>stamp := stmp\<rparr>\<rparr>
        in w\<lparr>position_msg := m, sent := Position_pub m # sent w\<rparr>
      else
        let m = (position_raw_msg w)\<lparr>content := (content (position_raw_msg w))
                  \<lparr>pt_type_mask := IGNORE_VX + IGNORE_VY + IGNORE_VZ +
                                   IGNORE_AFX + IGNORE_AFY + IGNORE_AFZ + IGNORE_YAW,
                   pt_yaw_rate := setpoint_yaw_rate w,
                   pt_position := position (content (position_msg w))\<rparr>\<rparr>
        in w\<lparr>position_raw_msg := m, sent := Position_raw_pub m # sent w\<rparr>)"

definition publish_velocity :: "world \<Rightarrow> world" where
  "publish_velocity w =
     (let m = (position_raw_msg w)\<lparr>content := (content (position_raw_msg w))
                \<lparr>pt_type_mask := IGNORE_PX + IGNORE_PY + IGNORE_PZ +
                                 IGNORE_AFX + IGNORE_AFY + IGNORE_AFZ +
                                 (if setpoint_yaw_type w = YAW then IGNORE_YAW_RATE else IGNORE_YAW),
                 pt_velocity := content (setpoint_velocity_transformed w),
                 pt_yaw := getYaw (lib w) (orientation (content (setpoint_position_transformed w))),
                 pt_yaw_rate := setpoint_yaw_rate w\<rparr>\<rparr>
      in w\<lparr>position_raw_msg := m, sent := Position_raw_pub m # sent w\<rparr>)"

definition publish_attitude :: "world \<Rightarrow> world" where
  "publish_attitude w =
     w\<lparr>sent := Thrust_pub (thrust_msg w) # Attitude_pub (setpoint_position_transformed w) # sent w\<rparr>"

definition publish_rates :: "time \<Rightarrow> world \<Rightarrow> world" where
  "publish_rates stmp w =
     (let m = \<lparr>header = \<lparr>stamp = stmp, frame_id = fcu_frame (par w)\<rparr>,
               content = (content (att_raw_msg w))
                 \<lparr>at_type_mask := IGNORE_ATTITUDE,
                  at_body_rate := twist_angular (content (rates_msg w)),
                  at_thrust := content (thrust_msg w)\<rparr>\<rparr>
      in w\<lparr>att_raw_msg := m, sent := Attitude_raw_pub m # sent w\<rparr>)"

text \<open>\<^verbatim>\<open>publish\<close>: the blocks of the source in their order, each under its condition.\<close>

definition publish :: "time \<Rightarrow> world \<Rightarrow> world" where
  "publish stmp w0 =
     (if setpoint_type w0 = NONE then w0
      else
        let w1 = w0\<lparr>position_raw_msg := (position_raw_msg w0)\<lparr>header := (header (position_raw_msg w0))\<lparr>stamp := stmp\<rparr>\<rparr>,
                   thrust_msg := (thrust_msg w0)\<lparr>header := (header (thrust_msg w0))\<lparr>stamp := stmp\<rparr>\<rparr>,
                   rates_msg := (rates_msg w0)\<lparr>header := (header (rates_msg w0))\<lparr>stamp := stmp\<rparr>\<rparr>\<rparr>;
            w2 = publish_transform stmp w1;
            w3 = publish_target w2;
            ty = setpoint_type w3;
            w4 = (if ty = NAVIGATE \<or> ty = NAVIGATE_GLOBAL then publish_navigate stmp w3 else w3);
            w5 = (if ty = POSITION then w4\<lparr>position_msg := setpoint_position_transformed w4\<rparr> else w4);
            w6 = (if ty = POSITION \<or> ty = NAVIGATE \<or> ty = NAVIGATE_GLOBAL
                  then publish_position stmp w5 else w5);
            w7 = (if ty = VELOCITY then publish_velocity w6 else w6);
            w8 = (if ty = ATTITUDE then publish_attitude w7 else w7)
        in if ty = RATES then publish_rates stmp w8 else w8)"

section \<open>Spinning and sleeping\<close>

text \<open>
  \<^verbatim>\<open>publishSetpoint\<close> is the callback of \<^verbatim>\<open>setpoint_timer\<close>, which runs only while the timer
  is started. The other callbacks store the message (\<^verbatim>\<open>handleMessage\<close>).
\<close>

fun handle_event :: "event \<Rightarrow> world \<Rightarrow> world" where
  "handle_event (StateMsg m) w = w\<lparr>state := m\<rparr>"
| "handle_event (StatusTextMsg m) w = w\<lparr>statustext := m\<rparr>"
| "handle_event (LocalPositionMsg m) w = handleLocalPosition m w"
| "handle_event (VelocityMsg m) w = w\<lparr>velocity := m\<rparr>"
| "handle_event (GlobalPositionMsg m) w = w\<lparr>global_position := m\<rparr>"
| "handle_event (BatteryMsg m) w = w\<lparr>battery := m\<rparr>"
| "handle_event (TimerEvent t) w = (if timer_running w then publish t w else w)"
| "handle_event (TfUpdate b) w = w\<lparr>tf_buffer := b\<rparr>"
| "handle_event Shutdown w = w\<lparr>ok := False\<rparr>"

definition spinOnce :: "world \<Rightarrow> world" where
  "spinOnce w =
     (case pending w of
        [] \<Rightarrow> w
      | es # rest \<Rightarrow> fold handle_event es (w\<lparr>pending := rest\<rparr>))"

definition sleep :: "world \<Rightarrow> world option" where
  "sleep w = (case sleeps w of [] \<Rightarrow> None | d # ds \<Rightarrow> Some (w\<lparr>now := now w + d, sleeps := ds\<rparr>))"

lemma sleeps_getNavigateSetpoint: "sleeps (snd (getNavigateSetpoint t v w)) = sleeps w"
  by (simp add: getNavigateSetpoint_def Let_def)

lemma sleeps_publish_transform: "sleeps (publish_transform t w) = sleeps w"
  by (simp add: publish_transform_def Let_def split: sum.splits)

lemma sleeps_publish_target: "sleeps (publish_target w) = sleeps w"
  by (simp add: publish_target_def Let_def)

lemma sleeps_publish_navigate: "sleeps (publish_navigate t w) = sleeps w"
  using sleeps_getNavigateSetpoint [of t "nav_speed w" w]
  by (auto simp: publish_navigate_def Let_def split: prod.splits)

lemma sleeps_publish_position: "sleeps (publish_position t w) = sleeps w"
  by (simp add: publish_position_def Let_def)

lemma sleeps_publish_velocity: "sleeps (publish_velocity w) = sleeps w"
  by (simp add: publish_velocity_def Let_def)

lemma sleeps_publish_attitude: "sleeps (publish_attitude w) = sleeps w"
  by (simp add: publish_attitude_def)

lemma sleeps_publish_rates: "sleeps (publish_rates t w) = sleeps w"
  by (simp add: publish_rates_def Let_def)

lemmas sleeps_publish_parts =
  sleeps_publish_transform sleeps_publish_target sleeps_publish_navigate
  sleeps_publish_position sleeps_publish_velocity sleeps_publish_attitude sleeps_publish_rates

lemma sleeps_publish: "sleeps (publish t w) = sleeps w"
  by (simp add: publish_def Let_def sleeps_publish_parts)

lemma sleeps_handle_event: "sleeps (handle_event e w) = sleeps w"
  by (cases e) (simp_all add: sleeps_publish handleLocalPosition_def publishBodyFrame_def Let_def)

lemma sleeps_fold_handle_event: "sleeps (fold handle_event es w) = sleeps w"
  by (induction es arbitrary: w) (simp_all add: sleeps_handle_event)

lemma sleeps_spinOnce: "sleeps (spinOnce w) = sleeps w"
  by (simp add: spinOnce_def sleeps_fold_handle_event split: list.splits)

lemma sleep_shorter: "sleep w = Some w' \<Longrightarrow> length (sleeps w') < length (sleeps w)"
  by (auto simp: sleep_def split: list.splits)

text \<open>
  \<^verbatim>\<open>waitTransform\<close>: the loop runs while \<^verbatim>\<open>ros::ok()\<close>; when it is left because
  \<^verbatim>\<open>ros::ok()\<close> is false, the function ends without a \<^verbatim>\<open>return\<close>.
\<close>

function waitTransform_loop ::
  "string \<Rightarrow> string \<Rightarrow> time \<Rightarrow> time \<Rightarrow> time \<Rightarrow> world \<Rightarrow> bool res \<times> world" where
  "waitTransform_loop tgt source stmp timeout start w =
     (if \<not> ok w then (Undefined, w)
      else if now w - start > timeout then (Ok False, w)
      else if canTransform (tf_buffer w) tgt source stmp then (Ok True, w)
      else (case sleep (spinOnce w) of
              None \<Rightarrow> (Stuck, spinOnce w)
            | Some w' \<Rightarrow> waitTransform_loop tgt source stmp timeout start w'))"
  by pat_completeness auto
termination
  by (relation "measure (\<lambda>(tgt, source, stmp, timeout, start, w). length (sleeps w))")
     (auto dest: sleep_shorter simp: sleeps_spinOnce)

definition waitTransform :: "string \<Rightarrow> string \<Rightarrow> time \<Rightarrow> time \<Rightarrow> world \<Rightarrow> bool res \<times> world" where
  "waitTransform tgt source stmp timeout w = waitTransform_loop tgt source stmp timeout (now w) w"

section \<open>Telemetry service\<close>

record Telemetry =
  t_frame_id :: string
  t_connected :: bool
  t_armed :: bool
  t_mode :: string
  t_x :: fp
  t_y :: fp
  t_z :: fp
  t_lat :: fp
  t_lon :: fp
  t_alt :: fp
  t_vx :: fp
  t_vy :: fp
  t_vz :: fp
  t_pitch :: fp
  t_roll :: fp
  t_yaw :: fp
  t_pitch_rate :: fp
  t_roll_rate :: fp
  t_yaw_rate :: fp
  t_voltage :: fp
  t_cell_voltage :: fp

text \<open>The frame \<^verbatim>\<open>getTelemetry\<close> works in: \<^verbatim>\<open>req.frame_id\<close> after the substitution.\<close>

definition telemetry_frame :: "string \<Rightarrow> world \<Rightarrow> string" where
  "telemetry_frame frame w = (if frame = [] then local_frame (par w) else frame)"

definition telemetry_pose :: "string \<Rightarrow> world \<Rightarrow> Telemetry \<Rightarrow> Telemetry" where
  "telemetry_pose frame w res =
     (if \<not> TIMEOUT w (local_position w) (local_position_timeout (par w))
      then (case transformPose (tf_buffer w) (local_position w) frame 0 of
              Inl e \<Rightarrow> res
            | Inr pose \<Rightarrow>
                (case getEulerYPR (lib w) (orientation (content pose)) of
                   (yaw, pitch, roll) \<Rightarrow>
                     res\<lparr>t_x := cx (position (content pose)),
                         t_y := cy (position (content pose)),
                         t_z := cz (position (content pose)),
                         t_yaw := yaw, t_pitch := pitch, t_roll := roll\<rparr>))
      else res)"

definition telemetry_velocity :: "string \<Rightarrow> world \<Rightarrow> Telemetry \<Rightarrow> Telemetry" where
  "telemetry_velocity frame w res =
     (if \<not> TIMEOUT w (velocity w) (velocity_timeout (par w))
      then
        let vec = \<lparr>header = header (velocity w), content = twist_linear (content (velocity w))\<rparr>;
            res1 = (case transformVector (tf_buffer w) vec frame 0 of
                      Inl e \<Rightarrow> res
                    | Inr vec_out \<Rightarrow>
                        res\<lparr>t_vx := cx (content vec_out),
                            t_vy := cy (content vec_out),
                            t_vz := cz (content vec_out)\<rparr>)
        in res1\<lparr>t_yaw_rate := cz (twist_angular (content (velocity w))),
                t_pitch_rate := cy (twist_angular (content (velocity w))),
                t_roll_rate := cx (twist_angular (content (velocity w)))\<rparr>
      else res)"

definition telemetry_global :: "world \<Rightarrow> Telemetry \<Rightarrow> Telemetry" where
  "telemetry_global w res =
     (if \<not> TIMEOUT w (global_position w) (global_position_timeout (par w))
      then res\<lparr>t_lat := latitude (content (global_position w)),
               t_lon := longitude (content (global_position w)),
               t_alt := altitude (content (global_position w))\<rparr>
      else res)"

definition telemetry_battery :: "world \<Rightarrow> Telemetry \<Rightarrow> Telemetry" where
  "telemetry_battery w res =
     (if \<not> TIMEOUT w (battery w) (battery_timeout (par w))
      then
        let res1 = res\<lparr>t_voltage := voltage (content (battery w))\<rparr>
        in (case cell_voltage (content (battery w)) of
              [] \<Rightarrow> res1
            | c # cs \<Rightarrow> res1\<lparr>t_cell_voltage := c\<rparr>)
      else res)"

text \<open>
  \<^verbatim>\<open>getTelemetry\<close>: \<open>res\<close> is the response as the caller hands it over. The autopilot
  state is read before the wait for the transform, the other sections after it.
\<close>

definition getTelemetry :: "string \<Rightarrow> Telemetry \<Rightarrow> world \<Rightarrow> Telemetry res \<times> world" where
  "getTelemetry req_frame_id res w0 =
     (let stmp = now w0;
          frame = telemetry_frame req_frame_id w0;
          res1 = res\<lparr>t_frame_id := frame,
                   t_x := NaN, t_y := NaN, t_z := NaN, t_lat := NaN, t_lon := NaN, t_alt := NaN,
                   t_vx := NaN, t_vy := NaN, t_vz := NaN, t_pitch := NaN, t_roll := NaN, t_yaw := NaN,
                   t_pitch_rate := NaN, t_roll_rate := NaN, t_yaw_rate := NaN,
                   t_voltage := NaN, t_cell_voltage := NaN\<rparr>;
          res2 = (if \<not> TIMEOUT w0 (state w0) (state_timeout (par w0))
                  then res1\<lparr>t_connected := state_connected (content (state w0)),
                            t_armed := state_armed (content (state w0)),
                            t_mode := state_mode (content (state w0))\<rparr>
                  else res1)
      in (case waitTransform (local_frame (par w0)) frame stmp (telemetry_transform_timeout (par w0)) w0 of
            (Ok b, w) \<Rightarrow>
              (Ok (telemetry_battery w (telemetry_global w
                     (telemetry_velocity frame w (telemetry_pose frame w res2)))), w)
          | (Throw e, w) \<Rightarrow> (Throw e, w)
          | (Undefined, w) \<Rightarrow> (Undefined, w)
          | (Stuck, w) \<Rightarrow> (Stuck, w)))"

section \<open>Mode and arming\<close>

text \<open>
  The two waiting loops of \<^verbatim>\<open>offboardAndArm\<close>. When \<^verbatim>\<open>ros::ok()\<close> is false a loop is left
  and the function goes on as if the wait had succeeded.
\<close>

definition timeout_report :: "string \<Rightarrow> time \<Rightarrow> world \<Rightarrow> string" where
  "timeout_report what start w =
     (if stamp (header (statustext w)) > start
      then what @ '': '' @ content (statustext w)
      else what)"

function wait_offboard :: "time \<Rightarrow> world \<Rightarrow> unit res \<times> world" where
  "wait_offboard start w0 =
     (if \<not> ok w0 then (Ok (), w0)
      else
        let w = spinOnce w0 in
        if state_mode (content (state w)) = ''OFFBOARD'' then (Ok (), w)
        else if now w - start > offboard_timeout (par w)
        then (Throw (timeout_report ''OFFBOARD timed out'' start w), w)
        else (case sleep (spinOnce w) of
                None \<Rightarrow> (Stuck, spinOnce w)
              | Some w' \<Rightarrow> wait_offboard start w'))"
  by pat_completeness auto
termination
  by (relation "measure (\<lambda>(start, w). length (sleeps w))")
     (auto dest: sleep_shorter simp: sleeps_spinOnce)

function wait_armed_loop :: "time \<Rightarrow> world \<Rightarrow> unit res \<times> world" where
  "wait_armed_loop start w0 =
     (if \<not> ok w0 then (Ok (), w0)
      else
        let w = spinOnce w0 in
        if state_armed (content (state w)) then (Ok (), w)
        else if now w - start > arming_timeout (par w)
        then (Throw (timeout_report ''Arming timed out'' start w), w)
        else (case sleep (spinOnce w) of
                None \<Rightarrow> (Stuck, spinOnce w)
              | Some w' \<Rightarrow> wait_armed_loop start w'))"
  by pat_completeness auto
termination
  by (relation "measure (\<lambda>(start, w). length (sleeps w))")
     (auto dest: sleep_shorter simp: sleeps_spinOnce)

definition switch_offboard :: "world \<Rightarrow> unit res \<times> world" where
  "switch_offboard w =
     (if state_mode (content (state w)) \<noteq> ''OFFBOARD''
      then
        if \<not> fst (set_mode_srv w ''OFFBOARD'') then (Throw ''Error calling set_mode service'', w)
        else wait_offboard (now w) w
      else (Ok (), w))"

definition arm :: "world \<Rightarrow> unit res \<times> world" where
  "arm w =
     (if \<not> state_armed (content (state w))
      then
        if \<not> arming_srv w True then (Throw ''Error calling arming service'', w)
        else wait_armed_loop (now w) w
      else (Ok (), w))"

definition offboardAndArm :: "world \<Rightarrow> unit res \<times> world" where
  "offboardAndArm w =
     (case switch_offboard w of
        (Ok u, w1) \<Rightarrow> arm w1
      | r \<Rightarrow> r)"

section \<open>Geodesic projection\<close>

text \<open>
  \<^verbatim>\<open>globalToLocal\<close>: the pose starts as a default \<^verbatim>\<open>PoseStamped\<close> (all numbers zero), so
  its \<open>z\<close> is never written. The code names the outputs of \<^verbatim>\<open>Inverse\<close>
  \<^verbatim>\<open>distance, _, azimuth\<close>: it reads the first and the third.
\<close>

definition M_PI :: fp where
  "M_PI = Fin pi"

definition globalToLocal :: "fp \<Rightarrow> fp \<Rightarrow> world \<Rightarrow> string + PoseStamped" where
  "globalToLocal lat lon w =
     (case Inverse (lib w) (latitude (content (global_position w)))
             (longitude (content (global_position w))) lat lon of
        (distance, _, azimuth) \<Rightarrow>
          let azimuth_radians = azimuth * M_PI / Fin 180;
              x_offset = distance * fsin azimuth_radians;
              y_offset = distance * fcos azimuth_radians
          in (case lookupTransform (tf_buffer w) (local_frame (par w)) (fcu_frame (par w))
                     (stamp (header (global_position w))) of
                Inl e \<Rightarrow> Inl e
              | Inr local \<Rightarrow>
                  Inr \<lparr>header = \<lparr>stamp = stamp (header (global_position w)),
                                  frame_id = local_frame (par w)\<rparr>,
                       content =
                         \<lparr>position = \<lparr>cx = cx (translation (content local)) + x_offset,
                                       cy = cy (translation (content local)) + y_offset,
                                       cz = Fin 0\<rparr>,
                          orientation = \<lparr>qx = Fin 0, qy = Fin 0, qz = Fin 0, qw = Fin 1\<rparr>\<rparr>\<rparr>))"

section \<open>Command handlers\<close>

record Response =
  success :: bool
  message :: string

text \<open>The arguments of \<^verbatim>\<open>serve\<close> after \<^verbatim>\<open>sp_type\<close>, which it takes by value and may overwrite.\<close>

record args =
  a_x :: fp
  a_y :: fp
  a_z :: fp
  a_vx :: fp
  a_vy :: fp
  a_vz :: fp
  a_pitch :: fp
  a_roll :: fp
  a_yaw :: fp
  a_pitch_rate :: fp
  a_roll_rate :: fp
  a_yaw_rate :: fp
  a_lat :: fp
  a_lon :: fp
  a_thrust :: fp
  a_speed :: fp
  a_frame_id :: string
  a_auto_arm :: bool

text \<open>\<^verbatim>\<open>checkState\<close>: \<open>Some\<close> of the message it throws, or \<open>None\<close>.\<close>

definition checkState :: "world \<Rightarrow> string option" where
  "checkState w =
     (if TIMEOUT w (state w) (state_timeout (par w))
      then Some ''State timeout, check mavros settings''
      else if \<not> state_connected (content (state w))
      then Some ''No connection to FCU, https://clever.copterexpress.com/connection.html''
      else None)"

text \<open>
  The checks of \<^verbatim>\<open>serve\<close> from \<^verbatim>\<open>checkState()\<close> to the default frame (source lines 496 to
  524): the message of the first check that throws, or the arguments with the default speed
  and the default frame filled in.
\<close>

definition serve_checks :: "setpoint_type_t \<Rightarrow> args \<Rightarrow> world \<Rightarrow> string + args" where
  "serve_checks sp_type a w =
     (let nav = (sp_type = NAVIGATE \<or> sp_type = NAVIGATE_GLOBAL);
          yawed = (sp_type = NAVIGATE \<or> sp_type = NAVIGATE_GLOBAL \<or> sp_type = POSITION \<or> sp_type = VELOCITY)
      in case checkState w of
           Some e \<Rightarrow> Inl e
         | None \<Rightarrow>
             if nav \<and> TIMEOUT w (local_position w) (local_position_timeout (par w))
             then Inl ''No local position, check settings''
             else if nav \<and> flt (a_speed a) (Fin 0)
             then Inl (''Navigate speed must be positive, '' @ to_string (lib w) (a_speed a) @ '' passed'')
             else
               let a1 = (if nav \<and> feq (a_speed a) (Fin 0) then a\<lparr>a_speed := default_speed (par w)\<rparr> else a)
               in if yawed \<and> \<not> feq (a_yaw_rate a1) (Fin 0) \<and> \<not> isnan (a_yaw a1)
                  then Inl ''Yaw value should be NaN for setting yaw rate''
                  else if yawed \<and> isnan (a_yaw_rate a1) \<and> isnan (a_yaw a1)
                  then Inl ''Both yaw and yaw_rate cannot be NaN''
                  else if sp_type = NAVIGATE_GLOBAL \<and>
                          TIMEOUT w (global_position w) (global_position_timeout (par w))
                  then Inl ''No global position''
                  else Inr (if a_frame_id a1 = [] then a1\<lparr>a_frame_id := local_frame (par w)\<rparr> else a1))"

definition lookup_reference_frame :: "string \<Rightarrow> world \<Rightarrow> string" where
  "lookup_reference_frame frame w =
     (case reference_frames (par w) frame of None \<Rightarrow> frame | Some f \<Rightarrow> f)"

text \<open>The two waits for transforms (source lines 530 to 538).\<close>

definition serve_wait :: "setpoint_type_t \<Rightarrow> string \<Rightarrow> string \<Rightarrow> time \<Rightarrow> world \<Rightarrow> unit res \<times> world" where
  "serve_wait sp_type frame reference_frame stmp w =
     (if sp_type = NAVIGATE \<or> sp_type = NAVIGATE_GLOBAL \<or> sp_type = POSITION \<or>
         sp_type = VELOCITY \<or> sp_type = ATTITUDE
      then
        (case waitTransform reference_frame frame stmp (transform_timeout (par w)) w of
           (Ok b1, w1) \<Rightarrow>
             if \<not> b1
             then (Throw (''Can't transform from '' @ frame @ '' to '' @ reference_frame), w1)
             else
               (case waitTransform (local_frame (par w1)) reference_frame stmp (transform_timeout (par w1)) w1 of
                  (Ok b2, w2) \<Rightarrow>
                    if \<not> b2
                    then (Throw (''Can't transform from '' @ reference_frame @ '' to '' @ local_frame (par w2)), w2)
                    else (Ok (), w2)
                | (Throw e, w2) \<Rightarrow> (Throw e, w2)
                | (Undefined, w2) \<Rightarrow> (Undefined, w2)
                | (Stuck, w2) \<Rightarrow> (Stuck, w2))
         | (Throw e, w1) \<Rightarrow> (Throw e, w1)
         | (Undefined, w1) \<Rightarrow> (Undefined, w1)
         | (Stuck, w1) \<Rightarrow> (Stuck, w1))
      else (Ok (), w))"

text \<open>\<^verbatim>\<open>NAVIGATE_GLOBAL\<close>: \<open>x\<close> and \<open>y\<close> from the projection (source lines 540 to 545).\<close>

definition serve_global :: "setpoint_type_t \<Rightarrow> args \<Rightarrow> world \<Rightarrow> string + args" where
  "serve_global sp_type a w =
     (if sp_type = NAVIGATE_GLOBAL
      then
        (case globalToLocal (a_lat a) (a_lon a) w of
           Inl e \<Rightarrow> Inl e
         | Inr p \<Rightarrow>
             (case transformPose (tf_buffer w) p (a_frame_id a) 0 of
                Inl e \<Rightarrow> Inl e
              | Inr xy_in_req_frame \<Rightarrow>
                  Inr (a\<lparr>a_x := cx (position (content xy_in_req_frame)),
                          a_y := cy (position (content xy_in_req_frame))\<rparr>)))
      else Inr a)"

text \<open>
  The destination pose (source lines 564 to 588). \<^verbatim>\<open>ps\<close> is static: its orientation is
  written only for an absolute yaw, so for a yaw rate or a yaw towards the target it is
  what an earlier call left there.
\<close>

definition serve_pose :: "setpoint_type_t \<Rightarrow> args \<Rightarrow> string \<Rightarrow> time \<Rightarrow> world \<Rightarrow> unit res \<times> world" where
  "serve_pose sp_type a reference_frame stmp w =
     (if sp_type = POSITION \<or> sp_type = NAVIGATE \<or> sp_type = NAVIGATE_GLOBAL \<or>
         sp_type = VELOCITY \<or> sp_type = ATTITUDE
      then
        let ps0 = \<lparr>header = \<lparr>stamp = stmp, frame_id = a_frame_id a\<rparr>,
                   content = (content (serve_ps w))\<lparr>position := \<lparr>cx = a_x a, cy = a_y a, cz = a_z a\<rparr>\<rparr>\<rparr>;
            (yaw_type, rate, ps) =
              (if isnan (a_yaw a) then (YAW_RATE, a_yaw_rate a, ps0)
               else if isinf (a_yaw a) \<and> flt (Fin 0) (a_yaw a) then (TOWARDS, Fin 0, ps0)
               else (YAW, Fin 0,
                     ps0\<lparr>content := (content ps0)
                       \<lparr>orientation := createQuaternionMsgFromRollPitchYaw (lib w) (a_roll a) (a_pitch a) (a_yaw a)\<rparr>\<rparr>));
            w1 = w\<lparr>serve_ps := ps, setpoint_yaw_type := yaw_type, setpoint_yaw_rate := rate\<rparr>
        in (case transformPose (tf_buffer w1) ps reference_frame 0 of
              Inl e \<Rightarrow> (Throw e, w1)
            | Inr p \<Rightarrow> (Ok (), w1\<lparr>setpoint_position := p\<rparr>))
      else (Ok (), w))"

definition serve_velocity :: "setpoint_type_t \<Rightarrow> args \<Rightarrow> string \<Rightarrow> time \<Rightarrow> world \<Rightarrow> unit res \<times> world" where
  "serve_velocity sp_type a reference_frame stmp w =
     (if sp_type = VELOCITY
      then
        let vel = \<lparr>header = \<lparr>stamp = stmp, frame_id = a_frame_id a\<rparr>,
                   content = \<lparr>cx = a_vx a, cy = a_vy a, cz = a_vz a\<rparr>\<rparr>
        in (case transformVector (tf_buffer w) vel reference_frame 0 of
              Inl e \<Rightarrow> (Throw e, w)
            | Inr v \<Rightarrow> (Ok (), w\<lparr>setpoint_velocity := v\<rparr>))
      else (Ok (), w))"

text \<open>From the switch of the setpoint type to the rates (source lines 548 to 608).\<close>

definition serve_setpoint :: "setpoint_type_t \<Rightarrow> args \<Rightarrow> string \<Rightarrow> time \<Rightarrow> world \<Rightarrow> unit res \<times> world" where
  "serve_setpoint sp_type a reference_frame stmp w0 =
     (let w1 = w0\<lparr>setpoint_type := sp_type\<rparr>;
          w2 = (if sp_type = NAVIGATE \<or> sp_type = NAVIGATE_GLOBAL
                then w1\<lparr>nav_start := local_position w1, nav_speed := a_speed a\<rparr>
                else w1)
      in case serve_pose sp_type a reference_frame stmp w2 of
           (Ok u, w3) \<Rightarrow>
             (case serve_velocity sp_type a reference_frame stmp w3 of
                (Ok u, w4) \<Rightarrow>
                  let w5 = (if sp_type = ATTITUDE \<or> sp_type = RATES
                            then w4\<lparr>thrust_msg := (thrust_msg w4)\<lparr>content := a_thrust a\<rparr>\<rparr>
                            else w4);
                      w6 = (if sp_type = RATES
                            then w5\<lparr>rates_msg := (rates_msg w5)\<lparr>content := (content (rates_msg w5))
                                   \<lparr>twist_angular := \<lparr>cx = a_roll_rate a, cy = a_pitch_rate a, cz = a_yaw_rate a\<rparr>\<rparr>\<rparr>\<rparr>
                            else w5)
                  in (Ok (), w6)
              | r \<Rightarrow> r)
         | r \<Rightarrow> r)"

text \<open>The first publication and the start of the timer (source lines 610 to 613).\<close>

definition serve_start :: "bool \<Rightarrow> time \<Rightarrow> world \<Rightarrow> world" where
  "serve_start auto_arm stmp w = (publish stmp (w\<lparr>wait_armed := auto_arm\<rparr>))\<lparr>timer_running := True\<rparr>"

text \<open>Mode and arming (source lines 615 to 624).\<close>

definition serve_arm :: "bool \<Rightarrow> world \<Rightarrow> unit res \<times> world" where
  "serve_arm auto_arm w =
     (if auto_arm
      then (case offboardAndArm w of
              (Ok u, w1) \<Rightarrow> (Ok (), w1\<lparr>wait_armed := False\<rparr>)
            | r \<Rightarrow> r)
      else if state_mode (content (state w)) \<noteq> ''OFFBOARD''
      then (Throw ''Copter is not in OFFBOARD mode, use auto_arm?'', w\<lparr>timer_running := False\<rparr>)
      else if \<not> state_armed (content (state w))
      then (Throw ''Copter is not armed, use auto_arm?'', w\<lparr>timer_running := False\<rparr>)
      else (Ok (), w))"

text \<open>The \<^verbatim>\<open>try\<close> block of \<^verbatim>\<open>serve\<close>.\<close>

definition serve_try :: "setpoint_type_t \<Rightarrow> args \<Rightarrow> time \<Rightarrow> world \<Rightarrow> unit res \<times> world" where
  "serve_try sp_type a0 stmp w0 =
     (if busy w0 then (Throw ''Busy'', w0)
      else
        let w1 = w0\<lparr>busy := True\<rparr> in
        case serve_checks sp_type a0 w1 of
          Inl e \<Rightarrow> (Throw e, w1)
        | Inr a1 \<Rightarrow>
            let reference_frame = lookup_reference_frame (a_frame_id a1) w1 in
            case serve_wait sp_type (a_frame_id a1) reference_frame stmp w1 of
              (Ok u, w2) \<Rightarrow>
                (case serve_global sp_type a1 w2 of
                   Inl e \<Rightarrow> (Throw e, w2)
                 | Inr a2 \<Rightarrow>
                     (case serve_setpoint sp_type a2 reference_frame stmp w2 of
                        (Ok u, w3) \<Rightarrow> serve_arm (a_auto_arm a2) (serve_start (a_auto_arm a2) stmp w3)
                      | r \<Rightarrow> r))
            | r \<Rightarrow> r)"

text \<open>
  \<^verbatim>\<open>serve\<close>: \<open>res\<close> is the response as the caller hands it over (\<^verbatim>\<open>success\<close> and
  \<^verbatim>\<open>message\<close> are references into it). Every \<^verbatim>\<open>std::exception\<close> is caught; the function
  returns \<^verbatim>\<open>true\<close> on both paths.
\<close>

definition serve :: "setpoint_type_t \<Rightarrow> args \<Rightarrow> Response \<Rightarrow> world \<Rightarrow> Response res \<times> world" where
  "serve sp_type a res w0 =
     (case serve_try sp_type a (now w0) w0 of
        (Ok u, w) \<Rightarrow> (Ok (res\<lparr>success := True\<rparr>), w\<lparr>busy := False\<rparr>)
      | (Throw e, w) \<Rightarrow> (Ok (res\<lparr>message := e\<rparr>), w\<lparr>busy := False\<rparr>)
      | (Undefined, w) \<Rightarrow> (Undefined, w)
      | (Stuck, w) \<Rightarrow> (Stuck, w))"

text \<open>
  The service callbacks. ROS hands each of them a default response: \<^verbatim>\<open>success = false\<close>
  and an empty \<^verbatim>\<open>message\<close>. The arguments a callback passes as 0 or as the empty string are
  those of \<open>no_args\<close>.
\<close>

definition default_response :: Response where
  "default_response = \<lparr>success = False, message = []\<rparr>"

definition no_args :: args where
  "no_args = \<lparr>a_x = Fin 0, a_y = Fin 0, a_z = Fin 0, a_vx = Fin 0, a_vy = Fin 0, a_vz = Fin 0,
              a_pitch = Fin 0, a_roll = Fin 0, a_yaw = Fin 0,
              a_pitch_rate = Fin 0, a_roll_rate = Fin 0, a_yaw_rate = Fin 0,
              a_lat = Fin 0, a_lon = Fin 0, a_thrust = Fin 0, a_speed = Fin 0,
              a_frame_id = [], a_auto_arm = False\<rparr>"

definition navigate ::
  "fp \<Rightarrow> fp \<Rightarrow> fp \<Rightarrow> fp \<Rightarrow> fp \<Rightarrow> fp \<Rightarrow> string \<Rightarrow> bool \<Rightarrow> Response \<Rightarrow> world \<Rightarrow> Response res \<times> world" where
  "navigate x y z yaw yaw_rate speed frame auto_arm =
     serve NAVIGATE (no_args\<lparr>a_x := x, a_y := y, a_z := z, a_yaw := yaw, a_yaw_rate := yaw_rate,
                            a_speed := speed, a_frame_id := frame, a_auto_arm := auto_arm\<rparr>)"

definition navigateGlobal ::
  "fp \<Rightarrow> fp \<Rightarrow> fp \<Rightarrow> fp \<Rightarrow> fp \<Rightarrow> fp \<Rightarrow> string \<Rightarrow> bool \<Rightarrow> Response \<Rightarrow> world \<Rightarrow> Response res \<times> world" where
  "navigateGlobal lat lon z yaw yaw_rate speed frame auto_arm =
     serve NAVIGATE_GLOBAL (no_args\<lparr>a_z := z, a_yaw := yaw, a_yaw_rate := yaw_rate, a_lat := lat, a_lon := lon,
                                   a_speed := speed, a_frame_id := frame, a_auto_arm := auto_arm\<rparr>)"

definition setPosition ::
  "fp \<Rightarrow> fp \<Rightarrow> fp \<Rightarrow> fp \<Rightarrow> fp \<Rightarrow> string \<Rightarrow> bool \<Rightarrow> Response \<Rightarrow> world \<Rightarrow> Response res \<times> world" where
  "setPosition x y z yaw yaw_rate frame auto_arm =
     serve POSITION (no_args\<lparr>a_x := x, a_y := y, a_z := z, a_yaw := yaw, a_yaw_rate := yaw_rate,
                            a_frame_id := frame, a_auto_arm := auto_arm\<rparr>)"

definition setVelocity ::
  "fp \<Rightarrow> fp \<Rightarrow> fp \<Rightarrow> fp \<Rightarrow> fp \<Rightarrow> string \<Rightarrow> bool \<Rightarrow> Response \<Rightarrow> world \<Rightarrow> Response res \<times> world" where
  "setVelocity vx vy vz yaw yaw_rate frame auto_arm =
     serve VELOCITY (no_args\<lparr>a_vx := vx, a_vy := vy, a_vz := vz, a_yaw := yaw, a_yaw_rate := yaw_rate,
                            a_frame_id := frame, a_auto_arm := auto_arm\<rparr>)"

definition setAttitude ::
  "fp \<Rightarrow> fp \<Rightarrow> fp \<Rightarrow> fp \<Rightarrow> string \<Rightarrow> bool \<Rightarrow> Response \<Rightarrow> world \<Rightarrow> Response res \<times> world" where
  "setAttitude pitch roll yaw thrust frame auto_arm =
     serve ATTITUDE (no_args\<lparr>a_pitch := pitch, a_roll := roll, a_yaw := yaw, a_thrust := thrust,
                            a_frame_id := frame, a_auto_arm := auto_arm\<rparr>)"

definition setRates ::
  "fp \<Rightarrow> fp \<Rightarrow> fp \<Rightarrow> fp \<Rightarrow> bool \<Rightarrow> Response \<Rightarrow> world \<Rightarrow> Response res \<times> world" where
  "setRates pitch_rate roll_rate yaw_rate thrust auto_arm =
     serve RATES (no_args\<lparr>a_pitch_rate := pitch_rate, a_roll_rate := roll_rate, a_yaw_rate := yaw_rate,
                         a_thrust := thrust, a_auto_arm := auto_arm\<rparr>)"

text \<open>
  \<^verbatim>\<open>land\<close>: the waiting loop stands inside the \<^verbatim>\<open>try\<close> block, and nothing follows the
  \<^verbatim>\<open>catch\<close>. When the loop is left because \<^verbatim>\<open>ros::ok()\<close> is false, the function ends
  without a \<^verbatim>\<open>return\<close>.
\<close>

function land_loop :: "time \<Rightarrow> Response \<Rightarrow> world \<Rightarrow> Response res \<times> world" where
  "land_loop start res w =
     (if \<not> ok w then (Undefined, w)
      else if state_mode (content (state w)) = ''AUTO.LAND''
      then (Ok (res\<lparr>success := True\<rparr>), w\<lparr>busy := False\<rparr>)
      else if now w - start > land_timeout (par w) then (Throw ''Land request timed out'', w)
      else (case sleep (spinOnce w) of
              None \<Rightarrow> (Stuck, spinOnce w)
            | Some w' \<Rightarrow> land_loop start res w'))"
  by pat_completeness auto
termination
  by (relation "measure (\<lambda>(start, res, w). length (sleeps w))")
     (auto dest: sleep_shorter simp: sleeps_spinOnce)

definition land_try :: "Response \<Rightarrow> world \<Rightarrow> Response res \<times> world" where
  "land_try res w0 =
     (if busy w0 then (Throw ''Busy'', w0)
      else
        let w = w0\<lparr>busy := True\<rparr> in
        case checkState w of
          Some e \<Rightarrow> (Throw e, w)
        | None \<Rightarrow>
            if land_only_in_offboard (par w) \<and> state_mode (content (state w)) \<noteq> ''OFFBOARD''
            then (Throw ''Copter is not in OFFBOARD mode'', w)
            else if \<not> fst (set_mode_srv w ''AUTO.LAND'') then (Throw ''Can't call set_mode service'', w)
            else if \<not> snd (set_mode_srv w ''AUTO.LAND'') then (Throw ''Can't send set_mode request'', w)
            else land_loop (now w) res w)"

definition land :: "Response \<Rightarrow> world \<Rightarrow> Response res \<times> world" where
  "land res w0 =
     (case land_try res w0 of
        (Throw e, w) \<Rightarrow> (Ok (res\<lparr>message := e\<rparr>), w\<lparr>busy := False\<rparr>)
      | r \<Rightarrow> r)"

section \<open>The state after \<^verbatim>\<open>main\<close> has set the node up\<close>

definition zero_xyz :: xyz where
  "zero_xyz = \<lparr>cx = Fin 0, cy = Fin 0, cz = Fin 0\<rparr>"

definition zero_quaternion :: Quaternion where
  "zero_quaternion = \<lparr>qx = Fin 0, qy = Fin 0, qz = Fin 0, qw = Fin 0\<rparr>"

definition zero_header :: Header where
  "zero_header = \<lparr>stamp = 0, frame_id = []\<rparr>"

definition zero_pose :: PoseStamped where
  "zero_pose = \<lparr>header = zero_header, content = \<lparr>position = zero_xyz, orientation = zero_quaternion\<rparr>\<rparr>"

definition zero_vector :: Vector3Stamped where
  "zero_vector = \<lparr>header = zero_header, content = zero_xyz\<rparr>"

definition zero_twist :: TwistStamped where
  "zero_twist = \<lparr>header = zero_header, content = \<lparr>twist_linear = zero_xyz, twist_angular = zero_xyz\<rparr>\<rparr>"

definition zero_transform :: TransformStamped where
  "zero_transform = \<lparr>header = zero_header,
                      content = \<lparr>child_frame_id = [], translation = zero_xyz, rotation = zero_quaternion\<rparr>\<rparr>"

definition default_params :: params where
  "default_params =
     \<lparr>local_frame = ''map'', fcu_frame = ''base_link'',
      transform_timeout = 500000000, telemetry_transform_timeout = 500000000,
      offboard_timeout = 3000000000, land_timeout = 3000000000, arming_timeout = 4000000000,
      local_position_timeout = 2000000000, state_timeout = 3000000000,
      velocity_timeout = 2000000000, global_position_timeout = 10000000000,
      battery_timeout = 2000000000,
      default_speed = Fin (1 / 2), land_only_in_offboard = True, reference_frames = Map.empty\<rparr>"

text \<open>
  The globals as \<^verbatim>\<open>main\<close> leaves them before it spins, for given parameters and
  surroundings: messages are zero but for the frames and the constant \<^verbatim>\<open>main\<close> writes, and
  the child frames of \<open>target\<close> and \<open>body\<close> have their default names.
\<close>

definition main_state ::
  "params \<Rightarrow> library \<Rightarrow> tf_buffer_t \<Rightarrow> (string \<Rightarrow> bool \<times> bool) \<Rightarrow> (bool \<Rightarrow> bool) \<Rightarrow> world" where
  "main_state P L B sm ar =
     \<lparr>par = P, lib = L, tf_buffer = B, now = 0, ok = True, sleeps = [], pending = [],
      set_mode_srv = sm, arming_srv = ar, sent = [], timer_running = False,
      position_msg = zero_pose\<lparr>header := \<lparr>stamp = 0, frame_id = local_frame P\<rparr>\<rparr>,
      position_raw_msg =
        \<lparr>header = \<lparr>stamp = 0, frame_id = local_frame P\<rparr>,
         content = \<lparr>pt_coordinate_frame = FRAME_LOCAL_NED, pt_type_mask = 0,
                    pt_position = zero_xyz, pt_velocity = zero_xyz,
                    pt_acceleration_or_force = zero_xyz, pt_yaw = Fin 0, pt_yaw_rate = Fin 0\<rparr>\<rparr>,
      att_raw_msg =
        \<lparr>header = zero_header,
         content = \<lparr>at_type_mask = 0, at_orientation = zero_quaternion,
                    at_body_rate = zero_xyz, at_thrust = Fin 0\<rparr>\<rparr>,
      thrust_msg = \<lparr>header = zero_header, content = Fin 0\<rparr>,
      rates_msg = zero_twist\<lparr>header := \<lparr>stamp = 0, frame_id = fcu_frame P\<rparr>\<rparr>,
      target = zero_transform\<lparr>content := (content zero_transform)\<lparr>child_frame_id := ''navigate_target''\<rparr>\<rparr>,
      body = zero_transform\<lparr>content := (content zero_transform)\<lparr>child_frame_id := ''body''\<rparr>\<rparr>,
      serve_ps = zero_pose,
      nav_start = zero_pose,
      setpoint_position = zero_pose, setpoint_position_transformed = zero_pose,
      setpoint_velocity = zero_vector, setpoint_velocity_transformed = zero_vector,
      setpoint_yaw_rate = Fin 0, nav_speed = Fin 0,
      busy = False, wait_armed = False,
      setpoint_type = NONE, setpoint_yaw_type = YAW,
      state = \<lparr>header = zero_header,
               content = \<lparr>state_connected = False, state_armed = False, state_mode = []\<rparr>\<rparr>,
      statustext = \<lparr>header = zero_header, content = []\<rparr>,
      local_position = zero_pose,
      velocity = zero_twist,
      global_position = \<lparr>header = zero_header,
                         content = \<lparr>latitude = Fin 0, longitude = Fin 0, altitude = Fin 0\<rparr>\<rparr>,
      battery = \<lparr>header = zero_header, content = \<lparr>voltage = Fin 0, cell_voltage = []\<rparr>\<rparr>\<rparr>"

text \<open>Surroundings for examples: no transform is known, and the library functions are constant.\<close>

definition no_tf :: tf_buffer_t where
  "no_tf = \<lparr>canTransform = (\<lambda>tgt source t. False),
            transformPose = (\<lambda>p frame timeout. Inl ''no transform''),
            transformVector = (\<lambda>v frame timeout. Inl ''no transform''),
            lookupTransform = (\<lambda>tgt source t. Inl ''no transform'')\<rparr>"

definition some_library :: library where
  "some_library =
     \<lparr>createQuaternionMsgFromRollPitchYaw = (\<lambda>r p y. \<lparr>qx = Fin 0, qy = Fin 0, qz = Fin 0, qw = Fin 1\<rparr>),
      getYaw = (\<lambda>q. Fin 0),
      getEulerYPR = (\<lambda>q. (Fin 0, Fin 0, Fin 0)),
      atan2 = (\<lambda>a b. Fin 0),
      to_string = (\<lambda>a. []),
      Inverse = (\<lambda>lat1 lon1 lat2 lon2. (Fin 0, Fin 0, Fin 0))\<rparr>"

definition example_state :: world where
  "example_state = main_state default_params some_library no_tf (\<lambda>m. (True, True)) (\<lambda>v. True)"

section \<open>Vocabulary of the properties and examples\<close>

unbundle bit_operations_syntax

subsection \<open>Points, durations and segments\<close>

text \<open>
  A point with finite coordinates, a duration in seconds as a real number, the Euclidean
  distance of two points, and the point at parameter \<open>u\<close> on the segment from \<open>s\<close> to \<open>g\<close>.
\<close>

definition point :: "real \<Rightarrow> real \<Rightarrow> real \<Rightarrow> xyz" where
  "point a b c = \<lparr>cx = Fin a, cy = Fin b, cz = Fin c\<rparr>"

definition seconds :: "time \<Rightarrow> real" where
  "seconds d = real_of_int d / 1000000000"

definition distance3 :: "real \<times> real \<times> real \<Rightarrow> real \<times> real \<times> real \<Rightarrow> real" where
  "distance3 s g =
     (case (s, g) of ((sx, sy, sz), (gx, gy, gz)) \<Rightarrow>
        sqrt ((gx - sx) * (gx - sx) + (gy - sy) * (gy - sy) + (gz - sz) * (gz - sz)))"

definition interpolate :: "real \<times> real \<times> real \<Rightarrow> real \<times> real \<times> real \<Rightarrow> real \<Rightarrow> xyz" where
  "interpolate s g u =
     (case (s, g) of ((sx, sy, sz), (gx, gy, gz)) \<Rightarrow>
        point (sx + u * (gx - sx)) (sy + u * (gy - sy)) (sz + u * (gz - sz)))"

definition clamp :: "real \<Rightarrow> real \<Rightarrow> real \<Rightarrow> real" where
  "clamp u lo hi = max lo (min u hi)"

text \<open>
  The stamp of \<open>nav_start\<close> that a tick at time \<open>t\<close> computes with: \<open>t\<close> itself while
  \<open>wait_armed\<close> holds, since the tick first writes it there.
\<close>

definition nav_stamp :: "time \<Rightarrow> world \<Rightarrow> time" where
  "nav_stamp t w = (if wait_armed w then t else stamp (header (nav_start w)))"

text \<open>A pose at a point, for examples.\<close>

definition pose_at :: "time \<Rightarrow> real \<Rightarrow> real \<Rightarrow> real \<Rightarrow> PoseStamped" where
  "pose_at t a b c =
     \<lparr>header = \<lparr>stamp = t, frame_id = ''map''\<rparr>,
      content = \<lparr>position = point a b c, orientation = \<lparr>qx = Fin 0, qy = Fin 0, qz = Fin 0, qw = Fin 1\<rparr>\<rparr>\<rparr>"

text \<open>
  The first scenario of the specification: a navigation from the origin to \<open>(2, 0, 0)\<close> at
  speed 1, started at time \<open>t0\<close>.
\<close>

definition navigating :: "time \<Rightarrow> world" where
  "navigating t0 =
     example_state\<lparr>setpoint_type := NAVIGATE, nav_start := pose_at t0 0 0 0, nav_speed := Fin 1,
                   setpoint_position := pose_at t0 2 0 0,
                   setpoint_position_transformed := pose_at t0 2 0 0\<rparr>"

subsection \<open>A target at the start\<close>

text \<open>The point whose three coordinates are NaN.\<close>

definition nan_point :: xyz where
  "nan_point = \<lparr>cx = NaN, cy = NaN, cz = NaN\<rparr>"

text \<open>A navigation whose target is the place where it starts, stamped \<open>t0\<close>.\<close>

definition staying :: "time \<Rightarrow> world" where
  "staying t0 = (navigating t0)\<lparr>setpoint_position := pose_at t0 0 0 0,
                                setpoint_position_transformed := pose_at t0 0 0 0\<rparr>"

subsection \<open>Yaw policy and channels\<close>

text \<open>
  The setpoint messages among what was sent (a transform sent through the broadcaster is
  not one), and the two kinds of message the positional setpoints use.
\<close>

fun is_setpoint :: "outgoing \<Rightarrow> bool" where
  "is_setpoint (SendTransform m) = False"
| "is_setpoint m = True"

definition setpoints :: "outgoing list \<Rightarrow> outgoing list" where
  "setpoints ms = filter is_setpoint ms"

definition position_mask :: "16 word" where
  "position_mask = IGNORE_VX + IGNORE_VY + IGNORE_VZ + IGNORE_AFX + IGNORE_AFY + IGNORE_AFZ + IGNORE_YAW"

fun yaw_rate_message :: "time \<Rightarrow> fp \<Rightarrow> outgoing \<Rightarrow> bool" where
  "yaw_rate_message t r (Position_raw_pub m) =
     (stamp (header m) = t \<and> pt_type_mask (content m) = position_mask \<and> pt_yaw_rate (content m) = r)"
| "yaw_rate_message t r m = False"

fun pose_message :: "time \<Rightarrow> outgoing \<Rightarrow> bool" where
  "pose_message t (Position_pub m) = (stamp (header m) = t)"
| "pose_message t m = False"

text \<open>A transform buffer in which every transform is the identity, for examples.\<close>

definition identity_tf :: tf_buffer_t where
  "identity_tf =
     \<lparr>canTransform = (\<lambda>tgt source t. True),
      transformPose = (\<lambda>p frame timeout. Inr (p\<lparr>header := (header p)\<lparr>frame_id := frame\<rparr>\<rparr>)),
      transformVector = (\<lambda>v frame timeout. Inr (v\<lparr>header := (header v)\<lparr>frame_id := frame\<rparr>\<rparr>)),
      lookupTransform = (\<lambda>tgt source t. Inr (zero_transform\<lparr>header := \<lparr>stamp = t, frame_id = tgt\<rparr>\<rparr>))\<rparr>"

definition state_msg :: "time \<Rightarrow> bool \<Rightarrow> string \<Rightarrow> State Stamped" where
  "state_msg t is_armed m =
     \<lparr>header = \<lparr>stamp = t, frame_id = []\<rparr>,
      content = \<lparr>state_connected = True, state_armed = is_armed, state_mode = m\<rparr>\<rparr>"

text \<open>An armed vehicle in \<^verbatim>\<open>OFFBOARD\<close> mode at the origin, with fresh telemetry.\<close>

definition flying :: world where
  "flying = example_state\<lparr>tf_buffer := identity_tf, state := state_msg 0 True ''OFFBOARD'',
                          local_position := pose_at 0 0 0 0\<rparr>"

text \<open>The state after the ticks at the times \<open>ts\<close>, in their order.\<close>

definition ticks :: "time list \<Rightarrow> world \<Rightarrow> world" where
  "ticks ts w = fold publish ts w"

subsection \<open>Body rates\<close>

fun rates_message :: "string \<Rightarrow> xyz \<Rightarrow> fp \<Rightarrow> time \<Rightarrow> outgoing \<Rightarrow> bool" where
  "rates_message frame rates th t (Attitude_raw_pub m) =
     (header m = \<lparr>stamp = t, frame_id = frame\<rparr> \<and> at_type_mask (content m) = IGNORE_ATTITUDE \<and>
      at_body_rate (content m) = rates \<and> at_thrust (content m) = th)"
| "rates_message frame rates th t m = False"

text \<open>
  The state in which \<^verbatim>\<open>serve\<close> reaches the mode and arming step for a \<^verbatim>\<open>RATES\<close> command
  that passed the checks, and the state in which it leaves an accepted one.
\<close>

definition rates_started :: "args \<Rightarrow> world \<Rightarrow> world" where
  "rates_started a w =
     (publish_rates (now w)
        (w\<lparr>busy := True, setpoint_type := RATES, wait_armed := a_auto_arm a,
           position_raw_msg := (position_raw_msg w)\<lparr>header := (header (position_raw_msg w))\<lparr>stamp := now w\<rparr>\<rparr>,
           thrust_msg := (thrust_msg w)\<lparr>content := a_thrust a, header := (header (thrust_msg w))\<lparr>stamp := now w\<rparr>\<rparr>,
           rates_msg := (rates_msg w)
             \<lparr>content := (content (rates_msg w))
                \<lparr>twist_angular := \<lparr>cx = a_roll_rate a, cy = a_pitch_rate a, cz = a_yaw_rate a\<rparr>\<rparr>,
              header := (header (rates_msg w))\<lparr>stamp := now w\<rparr>\<rparr>\<rparr>))
       \<lparr>timer_running := True\<rparr>"

definition rates_accepted :: "args \<Rightarrow> world \<Rightarrow> world" where
  "rates_accepted a w = (rates_started a w)\<lparr>wait_armed := False, busy := False\<rparr>"

subsection \<open>Telemetry in the frame of the request\<close>

text \<open>
  The local position and the linear velocity as \<^verbatim>\<open>getTelemetry\<close> reads them in the frame
  \<open>F\<close>: transformed into \<open>F\<close> when the message is fresh and the transform exists, and NaN in
  every coordinate otherwise.
\<close>

definition position_in :: "string \<Rightarrow> world \<Rightarrow> xyz" where
  "position_in F w =
     (if TIMEOUT w (local_position w) (local_position_timeout (par w)) then nan_point
      else (case transformPose (tf_buffer w) (local_position w) F 0 of
              Inl e \<Rightarrow> nan_point
            | Inr p \<Rightarrow> position (content p)))"

definition velocity_in :: "string \<Rightarrow> world \<Rightarrow> xyz" where
  "velocity_in F w =
     (if TIMEOUT w (velocity w) (velocity_timeout (par w)) then nan_point
      else (case transformVector (tf_buffer w)
                   \<lparr>header = header (velocity w), content = twist_linear (content (velocity w))\<rparr> F 0 of
              Inl e \<Rightarrow> nan_point
            | Inr v \<Rightarrow> content v))"

text \<open>A response in which nothing is written yet, for examples.\<close>

definition empty_telemetry :: Telemetry where
  "empty_telemetry =
     \<lparr>t_frame_id = [], t_connected = False, t_armed = False, t_mode = [],
      t_x = Fin 0, t_y = Fin 0, t_z = Fin 0, t_lat = Fin 0, t_lon = Fin 0, t_alt = Fin 0,
      t_vx = Fin 0, t_vy = Fin 0, t_vz = Fin 0, t_pitch = Fin 0, t_roll = Fin 0, t_yaw = Fin 0,
      t_pitch_rate = Fin 0, t_roll_rate = Fin 0, t_yaw_rate = Fin 0,
      t_voltage = Fin 0, t_cell_voltage = Fin 0\<rparr>"

subsection \<open>Projection of a global position\<close>



subsection \<open>Failures of a command\<close>

text \<open>A vehicle on the ground, connected, neither in \<^verbatim>\<open>OFFBOARD\<close> mode nor armed.\<close>

definition grounded :: world where
  "grounded = example_state\<lparr>tf_buffer := identity_tf, state := state_msg 0 False ''POSCTL'',
                            local_position := pose_at 0 0 0 0\<rparr>"

text \<open>The timer and \<open>wait_armed\<close> are written by \<^verbatim>\<open>serve\<close> only.\<close>

definition timer_flags :: "world \<Rightarrow> bool \<times> bool" where
  "timer_flags w = (timer_running w, wait_armed w)"

text \<open>
  The body of a \<open>navigate\<close> with \<open>auto_arm\<close> at work on the ground: the setpoint is stored, the
  timer runs, and the handler waits for the mode and the arming with \<open>busy\<close> and \<open>wait_armed\<close>
  set.
\<close>

definition arming_navigation :: world where
  "arming_navigation =
     grounded\<lparr>setpoint_type := NAVIGATE, nav_start := pose_at 0 0 0 0, nav_speed := Fin 1,
              setpoint_position := pose_at 0 2 0 0, setpoint_position_transformed := pose_at 0 2 0 0,
              busy := True, wait_armed := True, timer_running := True\<rparr>"

subsection \<open>The position a navigation tick sends\<close>

text \<open>The position in a message of the pose or the raw position publisher.\<close>

fun position_sent :: "outgoing \<Rightarrow> xyz option" where
  "position_sent (Position_pub m) = Some (position (content m))"
| "position_sent (Position_raw_pub m) = Some (pt_position (content m))"
| "position_sent m = None"

text \<open>
  The state in which \<^verbatim>\<open>publish\<close> calls \<^verbatim>\<open>getNavigateSetpoint\<close>: the stamps are written, the
  target is transformed (or, when the transform has thrown, as it was) and broadcast.
\<close>

definition navigate_input :: "time \<Rightarrow> world \<Rightarrow> world" where
  "navigate_input t w =
     publish_target (publish_transform t
       (w\<lparr>position_raw_msg := (position_raw_msg w)\<lparr>header := (header (position_raw_msg w))\<lparr>stamp := t\<rparr>\<rparr>,
          thrust_msg := (thrust_msg w)\<lparr>header := (header (thrust_msg w))\<lparr>stamp := t\<rparr>\<rparr>,
          rates_msg := (rates_msg w)\<lparr>header := (header (rates_msg w))\<lparr>stamp := t\<rparr>\<rparr>\<rparr>))"

section \<open>Arithmetic on finite values\<close>

lemma fmin_Fin: "fmin (Fin a) (Fin b) = Fin (min a b)"
  by (simp add: fmin_def min_def)

lemma minus_Fin: "Fin a - Fin b = Fin (a - b)"
  by (simp add: minus_fp_def)

lemma getDistance_Fin:
  "getDistance \<lparr>cx = Fin a, cy = Fin b, cz = Fin c\<rparr> \<lparr>cx = Fin a', cy = Fin b', cz = Fin c'\<rparr>
     = Fin (sqrt ((a - a') * (a - a') + (b - b') * (b - b') + (c - c') * (c - c')))"
  by (simp add: getDistance_def hypot_def minus_Fin not_less)

lemma getNavigateSetpoint_finite:
  assumes "position (content (nav_start w)) = point sx sy sz"
    and "position (content (setpoint_position_transformed w)) = point gx gy gz"
    and d: "d = distance3 (sx, sy, sz) (gx, gy, gz)"
    and "0 < d" "0 < v"
  shows "fst (getNavigateSetpoint t (Fin v) w) =
           interpolate (sx, sy, sz) (gx, gy, gz) (min (seconds (t - nav_stamp t w) / (d / v)) 1)"
proof -
  have d': "d = sqrt ((sx - gx) * (sx - gx) + (sy - gy) * (sy - gy) + (sz - gz) * (sz - gz))"
    unfolding d distance3_def by (simp add: algebra_simps)
  show ?thesis
    using assms(1,2,4,5) unfolding d'
    by (simp add: getNavigateSetpoint_def Let_def getDistance_Fin minus_Fin fmin_Fin toSec_def
          nav_stamp_def seconds_def interpolate_def point_def mult.commute)
qed

section \<open>At most one command\<close>

lemma serve_busy:
  "busy w \<Longrightarrow> serve ty a default_response w =
     (Ok \<lparr>success = False, message = ''Busy''\<rparr>, w\<lparr>busy := False\<rparr>)"
  by (simp add: serve_def serve_try_def default_response_def)

lemma land_busy:
  "busy w \<Longrightarrow> land default_response w =
     (Ok \<lparr>success = False, message = ''Busy''\<rparr>, w\<lparr>busy := False\<rparr>)"
  by (simp add: land_def land_try_def default_response_def)

text \<open>
  A command that finds \<open>busy\<close> set is answered with \<open>success = false\<close> and the message
  \<open>Busy\<close>, by each of the seven handlers. The state it leaves is the state it found but for
  \<open>busy\<close>: the \<^verbatim>\<open>catch\<close> block that stores the message clears the flag, although the command that
  had set it is still at work.
\<close>

lemma busy_rejected:
  assumes "busy w"
  shows "navigate x y z yaw yaw_rate speed frame auto_arm default_response w =
           (Ok \<lparr>success = False, message = ''Busy''\<rparr>, w\<lparr>busy := False\<rparr>)
       \<and> navigateGlobal lat lon z yaw yaw_rate speed frame auto_arm default_response w =
           (Ok \<lparr>success = False, message = ''Busy''\<rparr>, w\<lparr>busy := False\<rparr>)
       \<and> setPosition x y z yaw yaw_rate frame auto_arm default_response w =
           (Ok \<lparr>success = False, message = ''Busy''\<rparr>, w\<lparr>busy := False\<rparr>)
       \<and> setVelocity vx vy vz yaw yaw_rate frame auto_arm default_response w =
           (Ok \<lparr>success = False, message = ''Busy''\<rparr>, w\<lparr>busy := False\<rparr>)
       \<and> setAttitude pitch roll yaw thrust frame auto_arm default_response w =
           (Ok \<lparr>success = False, message = ''Busy''\<rparr>, w\<lparr>busy := False\<rparr>)
       \<and> setRates pitch_rate roll_rate yaw_rate thrust auto_arm default_response w =
           (Ok \<lparr>success = False, message = ''Busy''\<rparr>, w\<lparr>busy := False\<rparr>)
       \<and> land default_response w =
           (Ok \<lparr>success = False, message = ''Busy''\<rparr>, w\<lparr>busy := False\<rparr>)"
  using assms
  by (simp add: navigate_def navigateGlobal_def setPosition_def setVelocity_def setAttitude_def
        setRates_def serve_busy land_busy)

section \<open>Interpolation\<close>

lemma clamp_above_zero: "0 \<le> a \<Longrightarrow> clamp a 0 1 = min a 1"
  by (simp add: clamp_def)

text \<open>
  C2, as amended. A tick at time \<open>t\<close>, not before the stamp of \<open>nav_start\<close>, with finite
  start and target at distance \<open>d > 0\<close> and a finite speed \<open>v > 0\<close>, computes the point
  \<open>start + u (target - start)\<close> with \<open>u = clamp((t - stamp) / (d / v), 0, 1)\<close>. At \<open>t = stamp\<close>
  the point is the start, and from \<open>stamp + d / v\<close> on it is the target.
\<close>

theorem navigate_interpolation:
  assumes "position (content (nav_start w)) = point sx sy sz"
    and "position (content (setpoint_position_transformed w)) = point gx gy gz"
    and "d = distance3 (sx, sy, sz) (gx, gy, gz)"
    and "0 < d" and "0 < v"
    and "nav_stamp t w \<le> t"
  shows "fst (getNavigateSetpoint t (Fin v) w) =
           interpolate (sx, sy, sz) (gx, gy, gz) (clamp (seconds (t - nav_stamp t w) / (d / v)) 0 1)
       \<and> (t = nav_stamp t w \<longrightarrow> fst (getNavigateSetpoint t (Fin v) w) = point sx sy sz)
       \<and> (d / v \<le> seconds (t - nav_stamp t w) \<longrightarrow> fst (getNavigateSetpoint t (Fin v) w) = point gx gy gz)"
proof -
  let ?e = "seconds (t - nav_stamp t w)"
  have e: "0 \<le> ?e"
    using assms(6) by (simp add: seconds_def)
  have q: "0 \<le> ?e / (d / v)"
    using e assms(4,5) by simp
  have eq: "fst (getNavigateSetpoint t (Fin v) w) =
              interpolate (sx, sy, sz) (gx, gy, gz) (min (?e / (d / v)) 1)"
    using assms(1-5) by (rule getNavigateSetpoint_finite)
  have at_start: "fst (getNavigateSetpoint t (Fin v) w) = point sx sy sz" if "t = nav_stamp t w"
  proof -
    have "?e = 0" using that by (simp add: seconds_def)
    then show ?thesis unfolding eq by (simp add: interpolate_def)
  qed
  have at_end: "fst (getNavigateSetpoint t (Fin v) w) = point gx gy gz" if "d / v \<le> ?e"
  proof -
    have "0 < d / v" using assms(4,5) by simp
    then have "1 \<le> ?e / (d / v)" using that by (simp only: le_divide_eq_1_pos)
    then have "min (?e / (d / v)) 1 = 1" by simp
    then show ?thesis unfolding eq by (simp add: interpolate_def)
  qed
  show ?thesis
    unfolding clamp_above_zero [OF q] using eq at_start at_end by blast
qed

lemma distance3_example: "distance3 (0, 0, 0) (2, 0, 0) = 2"
  by (simp add: distance3_def)

text \<open>
  The first scenario of the specification: from the origin to \<open>(2, 0, 0)\<close> at speed 1, the
  ticks at 0, 1, 2 and 3 seconds give \<open>(0, 0, 0)\<close>, \<open>(1, 0, 0)\<close>, \<open>(2, 0, 0)\<close> and \<open>(2, 0, 0)\<close>.
\<close>

theorem navigate_interpolation_witness:
  "fst (getNavigateSetpoint 0 (Fin 1) (navigating 0)) = point 0 0 0
   \<and> fst (getNavigateSetpoint 1000000000 (Fin 1) (navigating 0)) = point 1 0 0
   \<and> fst (getNavigateSetpoint 2000000000 (Fin 1) (navigating 0)) = point 2 0 0
   \<and> fst (getNavigateSetpoint 3000000000 (Fin 1) (navigating 0)) = point 2 0 0"
proof -
  have s: "position (content (nav_start (navigating 0))) = point 0 0 0"
    and g: "position (content (setpoint_position_transformed (navigating 0))) = point 2 0 0"
    by (simp_all add: navigating_def pose_at_def)
  have d: "(2::real) = distance3 (0, 0, 0) (2, 0, 0)"
    by (simp add: distance3_example)
  have n: "nav_stamp t (navigating 0) = 0" for t
    by (simp add: nav_stamp_def navigating_def pose_at_def example_state_def main_state_def)
  have "fst (getNavigateSetpoint 0 (Fin 1) (navigating 0)) = point 0 0 0"
    using navigate_interpolation [OF s g d, of 1 0]
    by (simp add: n seconds_def clamp_def interpolate_def)
  moreover have "fst (getNavigateSetpoint 1000000000 (Fin 1) (navigating 0)) = point 1 0 0"
    using navigate_interpolation [OF s g d, of 1 1000000000]
    by (simp add: n seconds_def clamp_def interpolate_def)
  moreover have "fst (getNavigateSetpoint 2000000000 (Fin 1) (navigating 0)) = point 2 0 0"
    using navigate_interpolation [OF s g d, of 1 2000000000]
    by (simp add: n seconds_def clamp_def interpolate_def)
  moreover have "fst (getNavigateSetpoint 3000000000 (Fin 1) (navigating 0)) = point 2 0 0"
    using navigate_interpolation [OF s g d, of 1 3000000000]
    by (simp add: n seconds_def clamp_def interpolate_def)
  ultimately show ?thesis by simp
qed

text \<open>
  The claim as first stated, for every tick, fails before the stamp of \<open>nav_start\<close>: the
  code bounds the parameter from above only. With \<open>nav_start\<close> stamped at 1 second, the tick
  at 0 seconds computes \<open>(-1, 0, 0)\<close>, where the clamped parameter gives the start.
\<close>

theorem navigate_interpolation_counterexample:
  "fst (getNavigateSetpoint 0 (Fin 1) (navigating 1000000000)) = point (- 1) 0 0
   \<and> interpolate (0, 0, 0) (2, 0, 0)
        (clamp (seconds (0 - nav_stamp 0 (navigating 1000000000)) / (distance3 (0, 0, 0) (2, 0, 0) / 1)) 0 1)
       = point 0 0 0
   \<and> fst (getNavigateSetpoint 0 (Fin 1) (navigating 1000000000)) \<noteq>
       interpolate (0, 0, 0) (2, 0, 0)
        (clamp (seconds (0 - nav_stamp 0 (navigating 1000000000)) / (distance3 (0, 0, 0) (2, 0, 0) / 1)) 0 1)"
proof -
  have s: "position (content (nav_start (navigating 1000000000))) = point 0 0 0"
    and g: "position (content (setpoint_position_transformed (navigating 1000000000))) = point 2 0 0"
    by (simp_all add: navigating_def pose_at_def)
  have d: "(2::real) = distance3 (0, 0, 0) (2, 0, 0)"
    by (simp add: distance3_example)
  have n: "nav_stamp 0 (navigating 1000000000) = 1000000000"
    by (simp add: nav_stamp_def navigating_def pose_at_def example_state_def main_state_def)
  have a: "fst (getNavigateSetpoint 0 (Fin 1) (navigating 1000000000)) = point (- 1) 0 0"
    using getNavigateSetpoint_finite [OF s g d, of 1 0]
    by (simp add: n seconds_def interpolate_def)
  have b: "interpolate (0, 0, 0) (2, 0, 0)
        (clamp (seconds (0 - nav_stamp 0 (navigating 1000000000)) / (distance3 (0, 0, 0) (2, 0, 0) / 1)) 0 1)
       = point 0 0 0"
    by (simp add: n seconds_def distance3_example clamp_def interpolate_def)
  show ?thesis
    unfolding a b by (simp add: point_def)
qed

section \<open>A target at the start\<close>

lemma getNavigateSetpoint_state:
  "snd (getNavigateSetpoint t v w) =
     (if wait_armed w
      then w\<lparr>nav_start := (nav_start w)\<lparr>header := (header (nav_start w))\<lparr>stamp := t\<rparr>\<rparr>\<rparr>
      else w)"
  by (simp add: getNavigateSetpoint_def Let_def)

lemma getNavigateSetpoint_zero_distance:
  assumes "position (content (nav_start w)) = point a b c"
    and "position (content (setpoint_position_transformed w)) = point a b c"
    and "0 < v"
  shows "fst (getNavigateSetpoint t (Fin v) w) = (if nav_stamp t w < t then point a b c else nan_point)"
  using assms
  by (simp add: getNavigateSetpoint_def Let_def getDistance_Fin minus_Fin fmin_def toSec_def
        nav_stamp_def point_def nan_point_def)

lemma distance3_zero_iff: "distance3 (sx, sy, sz) (gx, gy, gz) = 0 \<longleftrightarrow> sx = gx \<and> sy = gy \<and> sz = gz"
proof -
  have "(gx - sx) * (gx - sx) + (gy - sy) * (gy - sy) + (gz - sz) * (gz - sz) = 0
          \<longleftrightarrow> gx - sx = 0 \<and> gy - sy = 0 \<and> gz - sz = 0"
    by (simp add: add_nonneg_eq_0_iff)
  then show ?thesis
    by (auto simp: distance3_def)
qed

lemma distance3_nonneg: "0 \<le> distance3 s g"
  by (cases s, cases g) (simp add: distance3_def)

text \<open>
  C5. While \<open>wait_armed\<close> holds, a tick at time \<open>t\<close> stamps \<open>nav_start\<close> with \<open>t\<close>. For a
  finite start and target and a finite speed \<open>v > 0\<close>, the point it computes is the start
  when the target is another place: the parameter is 0. When the target is the start, the
  distance is 0, the parameter is \<open>0 / 0\<close>, and the point has three NaN coordinates.
\<close>

theorem wait_armed_tick:
  assumes "wait_armed w"
    and "position (content (nav_start w)) = point sx sy sz"
    and "position (content (setpoint_position_transformed w)) = point gx gy gz"
    and "0 < v"
  shows "stamp (header (nav_start (snd (getNavigateSetpoint t (Fin v) w)))) = t
       \<and> fst (getNavigateSetpoint t (Fin v) w) =
           (if distance3 (sx, sy, sz) (gx, gy, gz) = 0 then nan_point else point sx sy sz)"
proof (cases "distance3 (sx, sy, sz) (gx, gy, gz) = 0")
  case True
  then have "point gx gy gz = point sx sy sz"
    by (simp add: distance3_zero_iff)
  then show ?thesis
    using assms True getNavigateSetpoint_zero_distance [of w sx sy sz v t]
    by (simp add: getNavigateSetpoint_state nav_stamp_def)
next
  case False
  then have "0 < distance3 (sx, sy, sz) (gx, gy, gz)"
    using distance3_nonneg [of "(sx, sy, sz)" "(gx, gy, gz)"] by simp
  then show ?thesis
    using assms False getNavigateSetpoint_finite [OF assms(2,3) refl, of v t]
    by (simp add: getNavigateSetpoint_state nav_stamp_def seconds_def interpolate_def)
qed

text \<open>
  For example a tick at 0.7 seconds while \<open>wait_armed\<close> holds: towards \<open>(2, 0, 0)\<close> it gives
  the start, and with the target at the start it gives the NaN point.
\<close>

theorem wait_armed_tick_witness:
  "stamp (header (nav_start (snd (getNavigateSetpoint 700000000 (Fin 1) ((navigating 0)\<lparr>wait_armed := True\<rparr>))))) = 700000000
   \<and> fst (getNavigateSetpoint 700000000 (Fin 1) ((navigating 0)\<lparr>wait_armed := True\<rparr>)) = point 0 0 0
   \<and> fst (getNavigateSetpoint 700000000 (Fin 1) ((staying 0)\<lparr>wait_armed := True\<rparr>)) = nan_point"
proof -
  have "wait_armed ((navigating 0)\<lparr>wait_armed := True\<rparr>)"
    and "position (content (nav_start ((navigating 0)\<lparr>wait_armed := True\<rparr>))) = point 0 0 0"
    and "position (content (setpoint_position_transformed ((navigating 0)\<lparr>wait_armed := True\<rparr>))) = point 2 0 0"
    and "(0::real) < 1"
    by (simp_all add: navigating_def pose_at_def)
  from wait_armed_tick [OF this, of 700000000]
  have 1: "stamp (header (nav_start (snd (getNavigateSetpoint 700000000 (Fin 1) ((navigating 0)\<lparr>wait_armed := True\<rparr>))))) = 700000000
     \<and> fst (getNavigateSetpoint 700000000 (Fin 1) ((navigating 0)\<lparr>wait_armed := True\<rparr>)) = point 0 0 0"
    by (simp add: distance3_example)
  have "wait_armed ((staying 0)\<lparr>wait_armed := True\<rparr>)"
    and "position (content (nav_start ((staying 0)\<lparr>wait_armed := True\<rparr>))) = point 0 0 0"
    and "position (content (setpoint_position_transformed ((staying 0)\<lparr>wait_armed := True\<rparr>))) = point 0 0 0"
    and "(0::real) < 1"
    by (simp_all add: staying_def navigating_def pose_at_def)
  from wait_armed_tick [OF this, of 700000000]
  have 2: "fst (getNavigateSetpoint 700000000 (Fin 1) ((staying 0)\<lparr>wait_armed := True\<rparr>)) = nan_point"
    by (simp add: distance3_def)
  show ?thesis
    using 1 2 by simp
qed

text \<open>
  C6. When the target is the start (both finite, speed \<open>v > 0\<close> finite), a tick after the
  stamp of \<open>nav_start\<close> computes the target. A tick at the stamp itself divides \<open>0\<close> by the
  zero duration \<open>0 / v\<close>: \<^verbatim>\<open>std::min(NaN, 1.0)\<close> is NaN, and the point has three NaN
  coordinates (as it has for a tick before the stamp, where the parameter is \<open>-\<infinity>\<close>).
\<close>

theorem zero_distance_tick:
  assumes "position (content (nav_start w)) = point a b c"
    and "position (content (setpoint_position_transformed w)) = point a b c"
    and "0 < v"
  shows "fst (getNavigateSetpoint t (Fin v) w) = (if nav_stamp t w < t then point a b c else nan_point)"
  using assms by (rule getNavigateSetpoint_zero_distance)

text \<open>For example the tick at the stamp itself, and the tick one nanosecond later.\<close>

theorem zero_distance_tick_witness:
  "fst (getNavigateSetpoint 0 (Fin 1) (staying 0)) = nan_point
   \<and> fst (getNavigateSetpoint 1 (Fin 1) (staying 0)) = point 0 0 0"
proof -
  have s: "position (content (nav_start (staying 0))) = point 0 0 0"
    and g: "position (content (setpoint_position_transformed (staying 0))) = point 0 0 0"
    by (simp_all add: staying_def navigating_def pose_at_def)
  have n: "nav_stamp t (staying 0) = 0" for t
    by (simp add: nav_stamp_def staying_def navigating_def pose_at_def example_state_def main_state_def)
  show ?thesis
    using zero_distance_tick [OF s g, of 1 0] zero_distance_tick [OF s g, of 1 1]
    by (simp add: n)
qed

section \<open>Yaw policy and channels\<close>

lemma position_mask_bits:
  "position_mask AND IGNORE_YAW = IGNORE_YAW \<and> position_mask AND IGNORE_YAW_RATE = 0
   \<and> position_mask AND IGNORE_VX = IGNORE_VX \<and> position_mask AND IGNORE_VY = IGNORE_VY
   \<and> position_mask AND IGNORE_VZ = IGNORE_VZ \<and> position_mask AND IGNORE_AFX = IGNORE_AFX
   \<and> position_mask AND IGNORE_AFY = IGNORE_AFY \<and> position_mask AND IGNORE_AFZ = IGNORE_AFZ
   \<and> position_mask AND IGNORE_PX = 0 \<and> position_mask AND IGNORE_PY = 0 \<and> position_mask AND IGNORE_PZ = 0"
  by (simp add: position_mask_def IGNORE_VX_def IGNORE_VY_def IGNORE_VZ_def IGNORE_AFX_def
        IGNORE_AFY_def IGNORE_AFZ_def IGNORE_YAW_def IGNORE_YAW_RATE_def IGNORE_PX_def
        IGNORE_PY_def IGNORE_PZ_def)

lemma publish_transform_keeps:
  "setpoint_type (publish_transform t w) = setpoint_type w
   \<and> setpoint_yaw_type (publish_transform t w) = setpoint_yaw_type w
   \<and> setpoint_yaw_rate (publish_transform t w) = setpoint_yaw_rate w
   \<and> sent (publish_transform t w) = sent w
   \<and> position_raw_msg (publish_transform t w) = position_raw_msg w"
  by (simp add: publish_transform_def Let_def split: sum.splits)

lemma publish_target_keeps:
  "setpoint_type (publish_target w) = setpoint_type w
   \<and> setpoint_yaw_type (publish_target w) = setpoint_yaw_type w
   \<and> setpoint_yaw_rate (publish_target w) = setpoint_yaw_rate w
   \<and> setpoints (sent (publish_target w)) = setpoints (sent w)
   \<and> position_raw_msg (publish_target w) = position_raw_msg w"
  by (simp add: publish_target_def Let_def setpoints_def)

lemma publish_navigate_keeps:
  "setpoint_type (publish_navigate t w) = setpoint_type w
   \<and> setpoint_yaw_type (publish_navigate t w) = setpoint_yaw_type w
   \<and> setpoint_yaw_rate (publish_navigate t w) = setpoint_yaw_rate w
   \<and> sent (publish_navigate t w) = sent w
   \<and> position_raw_msg (publish_navigate t w) = position_raw_msg w"
  using getNavigateSetpoint_state [of t "nav_speed w" w]
  by (auto simp: publish_navigate_def Let_def split: prod.splits)

lemma publish_position_sends:
  "setpoint_type (publish_position t w) = setpoint_type w
   \<and> setpoint_yaw_type (publish_position t w) = setpoint_yaw_type w
   \<and> setpoint_yaw_rate (publish_position t w) = setpoint_yaw_rate w
   \<and> (\<exists>m. sent (publish_position t w) = m # sent w \<and>
        (if setpoint_yaw_type w = YAW_RATE
         then (stamp (header (position_raw_msg w)) = t \<longrightarrow> yaw_rate_message t (setpoint_yaw_rate w) m)
         else pose_message t m))"
  by (cases "setpoint_yaw_type w") (simp_all add: publish_position_def Let_def position_mask_def)

lemma publish_positional:
  assumes "setpoint_type w = POSITION \<or> setpoint_type w = NAVIGATE \<or> setpoint_type w = NAVIGATE_GLOBAL"
  shows "setpoint_type (publish t w) = setpoint_type w
       \<and> setpoint_yaw_type (publish t w) = setpoint_yaw_type w
       \<and> setpoint_yaw_rate (publish t w) = setpoint_yaw_rate w
       \<and> (\<exists>m. setpoints (sent (publish t w)) = m # setpoints (sent w) \<and>
            (if setpoint_yaw_type w = YAW_RATE then yaw_rate_message t (setpoint_yaw_rate w) m
             else pose_message t m))"
proof -
  define w1 where "w1 = w\<lparr>position_raw_msg := (position_raw_msg w)\<lparr>header := (header (position_raw_msg w))\<lparr>stamp := t\<rparr>\<rparr>,
                   thrust_msg := (thrust_msg w)\<lparr>header := (header (thrust_msg w))\<lparr>stamp := t\<rparr>\<rparr>,
                   rates_msg := (rates_msg w)\<lparr>header := (header (rates_msg w))\<lparr>stamp := t\<rparr>\<rparr>\<rparr>"
  define w3 where "w3 = publish_target (publish_transform t w1)"
  define w5 where "w5 = (if setpoint_type w3 = POSITION then w3\<lparr>position_msg := setpoint_position_transformed w3\<rparr>
                         else publish_navigate t w3)"
  have k3: "setpoint_type w3 = setpoint_type w" "setpoint_yaw_type w3 = setpoint_yaw_type w"
    "setpoint_yaw_rate w3 = setpoint_yaw_rate w" "setpoints (sent w3) = setpoints (sent w)"
    "stamp (header (position_raw_msg w3)) = t"
    by (simp_all add: w3_def w1_def publish_target_keeps publish_transform_keeps)
  have k5: "setpoint_type w5 = setpoint_type w" "setpoint_yaw_type w5 = setpoint_yaw_type w"
    "setpoint_yaw_rate w5 = setpoint_yaw_rate w" "setpoints (sent w5) = setpoints (sent w)"
    "stamp (header (position_raw_msg w5)) = t"
    using k3 by (simp_all add: w5_def publish_navigate_keeps)
  have p: "publish t w = publish_position t w5"
    using assms k3(1)
    by (auto simp: publish_def Let_def w5_def w3_def w1_def publish_target_keeps publish_transform_keeps
          publish_navigate_keeps publish_position_sends)
  obtain m where m: "sent (publish_position t w5) = m # sent w5"
    "if setpoint_yaw_type w5 = YAW_RATE
     then (stamp (header (position_raw_msg w5)) = t \<longrightarrow> yaw_rate_message t (setpoint_yaw_rate w5) m)
     else pose_message t m"
    using publish_position_sends [of t w5] by blast
  have "is_setpoint m"
    using m(2) k5(5) by (cases m) (auto split: if_splits)
  then have "setpoints (sent (publish t w)) = m # setpoints (sent w)"
    using m(1) k5(4) by (simp add: p setpoints_def)
  moreover have "if setpoint_yaw_type w = YAW_RATE then yaw_rate_message t (setpoint_yaw_rate w) m
             else pose_message t m"
    using m(2) k5 by (simp split: if_splits)
  ultimately show ?thesis
    using k5 by (simp add: p publish_position_sends)
qed

lemma ticks_positional:
  assumes "setpoint_type w = POSITION \<or> setpoint_type w = NAVIGATE \<or> setpoint_type w = NAVIGATE_GLOBAL"
  shows "\<exists>ms. setpoints (sent (ticks ts w)) = ms @ setpoints (sent w) \<and>
           (if setpoint_yaw_type w = YAW_RATE
            then list_all2 (\<lambda>t. yaw_rate_message t (setpoint_yaw_rate w)) (rev ts) ms
            else list_all2 pose_message (rev ts) ms)"
  using assms
proof (induction ts arbitrary: w)
  case Nil
  then show ?case by (simp add: ticks_def)
next
  case (Cons t ts)
  from publish_positional [OF Cons.prems, of t]
  obtain m where k: "setpoint_type (publish t w) = setpoint_type w"
      "setpoint_yaw_type (publish t w) = setpoint_yaw_type w"
      "setpoint_yaw_rate (publish t w) = setpoint_yaw_rate w"
    and m: "setpoints (sent (publish t w)) = m # setpoints (sent w)"
      "if setpoint_yaw_type w = YAW_RATE then yaw_rate_message t (setpoint_yaw_rate w) m
       else pose_message t m"
    by blast
  have "setpoint_type (publish t w) = POSITION \<or> setpoint_type (publish t w) = NAVIGATE \<or>
        setpoint_type (publish t w) = NAVIGATE_GLOBAL"
    using Cons.prems k(1) by simp
  from Cons.IH [OF this]
  obtain ms where ms: "setpoints (sent (ticks ts (publish t w))) = ms @ setpoints (sent (publish t w))"
      "if setpoint_yaw_type w = YAW_RATE
       then list_all2 (\<lambda>t. yaw_rate_message t (setpoint_yaw_rate w)) (rev ts) ms
       else list_all2 pose_message (rev ts) ms"
    unfolding k by blast
  have "setpoints (sent (ticks (t # ts) w)) = (ms @ [m]) @ setpoints (sent w)"
    using ms(1) m(1) by (simp add: ticks_def)
  moreover have "if setpoint_yaw_type w = YAW_RATE
       then list_all2 (\<lambda>t. yaw_rate_message t (setpoint_yaw_rate w)) (rev (t # ts)) (ms @ [m])
       else list_all2 pose_message (rev (t # ts)) (ms @ [m])"
    using ms(2) m(2) by (auto intro: list_all2_appendI split: if_splits)
  ultimately show ?case by blast
qed

lemma serve_pose_yaw:
  assumes "sp_type = POSITION \<or> sp_type = NAVIGATE \<or> sp_type = NAVIGATE_GLOBAL"
  shows "setpoint_type (snd (serve_pose sp_type a rf stmp w)) = setpoint_type w
       \<and> sent (snd (serve_pose sp_type a rf stmp w)) = sent w
       \<and> setpoint_yaw_type (snd (serve_pose sp_type a rf stmp w)) =
           (if isnan (a_yaw a) then YAW_RATE
            else if isinf (a_yaw a) \<and> flt (Fin 0) (a_yaw a) then TOWARDS else YAW)
       \<and> setpoint_yaw_rate (snd (serve_pose sp_type a rf stmp w)) =
           (if isnan (a_yaw a) then a_yaw_rate a else Fin 0)"
  using assms by (auto simp: serve_pose_def Let_def split: sum.splits)

lemma serve_setpoint_yaw:
  assumes "sp_type = POSITION \<or> sp_type = NAVIGATE \<or> sp_type = NAVIGATE_GLOBAL"
    and "serve_setpoint sp_type a rf stmp w0 = (Ok (), w)"
  shows "setpoint_type w = sp_type
       \<and> sent w = sent w0
       \<and> setpoint_yaw_type w =
           (if isnan (a_yaw a) then YAW_RATE
            else if isinf (a_yaw a) \<and> flt (Fin 0) (a_yaw a) then TOWARDS else YAW)
       \<and> setpoint_yaw_rate w = (if isnan (a_yaw a) then a_yaw_rate a else Fin 0)"
proof -
  define w2 where "w2 = (if sp_type = NAVIGATE \<or> sp_type = NAVIGATE_GLOBAL
                then w0\<lparr>setpoint_type := sp_type, nav_start := local_position w0, nav_speed := a_speed a\<rparr>
                else w0\<lparr>setpoint_type := sp_type\<rparr>)"
  have t2: "setpoint_type w2 = sp_type" "sent w2 = sent w0"
    by (simp_all add: w2_def)
  have "w = snd (serve_pose sp_type a rf stmp w2)"
    using assms
    by (auto simp: serve_setpoint_def Let_def w2_def serve_velocity_def split: prod.splits res.splits)
  then show ?thesis
    using serve_pose_yaw [OF assms(1), of a rf stmp w2] t2 by simp
qed

text \<open>
  C7. Take a \<^verbatim>\<open>POSITION\<close>, \<^verbatim>\<open>NAVIGATE\<close> or \<^verbatim>\<open>NAVIGATE_GLOBAL\<close> command whose setpoint \<^verbatim>\<open>serve\<close>
  has stored, and any ticks after it, at the times \<open>ts\<close>. Each tick sends one setpoint
  message, stamped with its time. When the yaw was NaN, every one of them goes to the raw
  position publisher, with the type mask that ignores velocity, acceleration and yaw (and not
  the yaw rate) and the yaw rate of the command: no pose is sent. Otherwise (an absolute yaw,
  or \<open>+\<infinity>\<close> for a yaw towards the target) every one of them goes to the pose publisher: no
  raw message, so no yaw rate, is sent.
\<close>

theorem yaw_channels:
  assumes "sp_type = POSITION \<or> sp_type = NAVIGATE \<or> sp_type = NAVIGATE_GLOBAL"
    and "serve_setpoint sp_type a rf stmp w0 = (Ok (), w)"
  shows "(\<exists>ms. setpoints (sent (ticks ts w)) = ms @ setpoints (sent w0) \<and>
            (if isnan (a_yaw a)
             then setpoint_yaw_type w = YAW_RATE \<and>
                  list_all2 (\<lambda>t. yaw_rate_message t (a_yaw_rate a)) (rev ts) ms
             else setpoint_yaw_type w \<noteq> YAW_RATE \<and> list_all2 pose_message (rev ts) ms))
       \<and> position_mask AND IGNORE_YAW = IGNORE_YAW \<and> position_mask AND IGNORE_YAW_RATE = 0
       \<and> position_mask AND (IGNORE_VX OR IGNORE_VY OR IGNORE_VZ OR IGNORE_AFX OR IGNORE_AFY OR IGNORE_AFZ)
           = IGNORE_VX OR IGNORE_VY OR IGNORE_VZ OR IGNORE_AFX OR IGNORE_AFY OR IGNORE_AFZ
       \<and> position_mask AND (IGNORE_PX OR IGNORE_PY OR IGNORE_PZ) = 0"
proof -
  have k: "setpoint_type w = sp_type" "sent w = sent w0"
    "setpoint_yaw_type w =
           (if isnan (a_yaw a) then YAW_RATE
            else if isinf (a_yaw a) \<and> flt (Fin 0) (a_yaw a) then TOWARDS else YAW)"
    "setpoint_yaw_rate w = (if isnan (a_yaw a) then a_yaw_rate a else Fin 0)"
    using serve_setpoint_yaw [OF assms] by simp_all
  have "setpoint_type w = POSITION \<or> setpoint_type w = NAVIGATE \<or> setpoint_type w = NAVIGATE_GLOBAL"
    using assms(1) k(1) by simp
  from ticks_positional [OF this, of ts]
  have "\<exists>ms. setpoints (sent (ticks ts w)) = ms @ setpoints (sent w0) \<and>
            (if isnan (a_yaw a)
             then setpoint_yaw_type w = YAW_RATE \<and>
                  list_all2 (\<lambda>t. yaw_rate_message t (a_yaw_rate a)) (rev ts) ms
             else setpoint_yaw_type w \<noteq> YAW_RATE \<and> list_all2 pose_message (rev ts) ms)"
    unfolding k by (auto split: if_splits)
  moreover have "position_mask AND (IGNORE_VX OR IGNORE_VY OR IGNORE_VZ OR IGNORE_AFX OR IGNORE_AFY OR IGNORE_AFZ)
           = IGNORE_VX OR IGNORE_VY OR IGNORE_VZ OR IGNORE_AFX OR IGNORE_AFY OR IGNORE_AFZ"
    "position_mask AND (IGNORE_PX OR IGNORE_PY OR IGNORE_PZ) = 0"
    by (simp_all add: position_mask_def IGNORE_VX_def IGNORE_VY_def IGNORE_VZ_def IGNORE_AFX_def
        IGNORE_AFY_def IGNORE_AFZ_def IGNORE_YAW_def IGNORE_PX_def IGNORE_PY_def IGNORE_PZ_def)
  ultimately show ?thesis
    using position_mask_bits by simp
qed

text \<open>
  The second scenario of the specification, \<open>set_position(x=0, y=0, z=1, yaw=NaN,
  yaw_rate=0.5)\<close>, and the same command with the yaw 0, in a state where every transform is
  the identity.
\<close>

theorem yaw_channels_witness:
  "fst (serve_setpoint POSITION (no_args\<lparr>a_z := Fin 1, a_yaw := NaN, a_yaw_rate := Fin (1 / 2), a_frame_id := ''map''\<rparr>)
          ''map'' 0 flying) = Ok ()
   \<and> (\<exists>ms. setpoints (sent (ticks [1, 2]
               (snd (serve_setpoint POSITION
                       (no_args\<lparr>a_z := Fin 1, a_yaw := NaN, a_yaw_rate := Fin (1 / 2), a_frame_id := ''map''\<rparr>)
                       ''map'' 0 flying)))) = ms @ setpoints (sent flying)
          \<and> list_all2 (\<lambda>t. yaw_rate_message t (Fin (1 / 2))) [2, 1] ms)
   \<and> fst (serve_setpoint POSITION (no_args\<lparr>a_z := Fin 1, a_frame_id := ''map''\<rparr>) ''map'' 0 flying) = Ok ()
   \<and> (\<exists>ms. setpoints (sent (ticks [1, 2]
               (snd (serve_setpoint POSITION (no_args\<lparr>a_z := Fin 1, a_frame_id := ''map''\<rparr>) ''map'' 0 flying))))
             = ms @ setpoints (sent flying)
          \<and> list_all2 pose_message [2, 1] ms)"
proof -
  let ?a = "no_args\<lparr>a_z := Fin 1, a_yaw := NaN, a_yaw_rate := Fin (1 / 2), a_frame_id := ''map''\<rparr>"
  let ?b = "no_args\<lparr>a_z := Fin 1, a_frame_id := ''map''\<rparr>"
  have 1: "fst (serve_setpoint POSITION ?a ''map'' 0 flying) = Ok ()"
    by (simp add: serve_setpoint_def serve_pose_def serve_velocity_def Let_def flying_def
          identity_tf_def isnan_def no_args_def)
  have 2: "fst (serve_setpoint POSITION ?b ''map'' 0 flying) = Ok ()"
    by (simp add: serve_setpoint_def serve_pose_def serve_velocity_def Let_def flying_def
          identity_tf_def isnan_def isinf_def no_args_def)
  have a: "serve_setpoint POSITION ?a ''map'' 0 flying = (Ok (), snd (serve_setpoint POSITION ?a ''map'' 0 flying))"
    using 1 by (simp add: prod_eq_iff)
  have b: "serve_setpoint POSITION ?b ''map'' 0 flying = (Ok (), snd (serve_setpoint POSITION ?b ''map'' 0 flying))"
    using 2 by (simp add: prod_eq_iff)
  have p: "POSITION = POSITION \<or> POSITION = NAVIGATE \<or> POSITION = NAVIGATE_GLOBAL"
    by simp
  have na: "isnan (a_yaw ?a)" and nb: "\<not> isnan (a_yaw ?b)" and ra: "a_yaw_rate ?a = Fin (1 / 2)"
    by (simp_all add: isnan_def no_args_def)
  have 3: "\<exists>ms. setpoints (sent (ticks [1, 2] (snd (serve_setpoint POSITION ?a ''map'' 0 flying))))
               = ms @ setpoints (sent flying)
             \<and> list_all2 (\<lambda>t. yaw_rate_message t (Fin (1 / 2))) [2, 1] ms"
    using yaw_channels [OF p a, of "[1, 2]"] unfolding if_P [OF na] ra by auto
  have 4: "\<exists>ms. setpoints (sent (ticks [1, 2] (snd (serve_setpoint POSITION ?b ''map'' 0 flying))))
               = ms @ setpoints (sent flying)
             \<and> list_all2 pose_message [2, 1] ms"
    using yaw_channels [OF p b, of "[1, 2]"] unfolding if_not_P [OF nb] by auto
  show ?thesis
    using 1 2 3 4 by blast
qed

section \<open>Body rates\<close>

lemma publish_RATES:
  assumes "setpoint_type w = RATES"
  shows "publish t w =
           publish_rates t
             (w\<lparr>position_raw_msg := (position_raw_msg w)\<lparr>header := (header (position_raw_msg w))\<lparr>stamp := t\<rparr>\<rparr>,
                thrust_msg := (thrust_msg w)\<lparr>header := (header (thrust_msg w))\<lparr>stamp := t\<rparr>\<rparr>,
                rates_msg := (rates_msg w)\<lparr>header := (header (rates_msg w))\<lparr>stamp := t\<rparr>\<rparr>\<rparr>)"
  using assms by (simp add: publish_def publish_transform_def publish_target_def Let_def)

lemma serve_checks_RATES:
  assumes "checkState w = None"
  shows "serve_checks RATES a w = Inr (if a_frame_id a = [] then a\<lparr>a_frame_id := local_frame (par w)\<rparr> else a)"
  using assms by (simp add: serve_checks_def Let_def)

lemma serve_setpoint_RATES:
  "serve_setpoint RATES a rf stmp w =
     (Ok (), w\<lparr>setpoint_type := RATES,
               thrust_msg := (thrust_msg w)\<lparr>content := a_thrust a\<rparr>,
               rates_msg := (rates_msg w)\<lparr>content := (content (rates_msg w))
                 \<lparr>twist_angular := \<lparr>cx = a_roll_rate a, cy = a_pitch_rate a, cz = a_yaw_rate a\<rparr>\<rparr>\<rparr>\<rparr>)"
  by (simp add: serve_setpoint_def serve_pose_def serve_velocity_def Let_def)

lemma publish_rates_keeps:
  "state (publish_rates t w) = state w \<and> par (publish_rates t w) = par w
   \<and> setpoint_type (publish_rates t w) = setpoint_type w
   \<and> content (thrust_msg (publish_rates t w)) = content (thrust_msg w)
   \<and> twist_angular (content (rates_msg (publish_rates t w))) = twist_angular (content (rates_msg w))"
  by (simp add: publish_rates_def Let_def)

lemma serve_arm_ready:
  assumes "state_mode (content (state w)) = ''OFFBOARD''" and "state_armed (content (state w))"
  shows "serve_arm auto_arm w = (Ok (), if auto_arm then w\<lparr>wait_armed := False\<rparr> else w)"
  using assms by (simp add: serve_arm_def offboardAndArm_def switch_offboard_def arm_def)

lemma serve_try_RATES:
  assumes "\<not> busy w"
    and "\<not> TIMEOUT w (state w) (state_timeout (par w))"
    and "state_connected (content (state w))"
  shows "serve_try RATES a (now w) w = serve_arm (a_auto_arm a) (rates_started a w)"
proof -
  let ?a1 = "if a_frame_id a = [] then a\<lparr>a_frame_id := local_frame (par w)\<rparr> else a"
  have c: "checkState (w\<lparr>busy := True\<rparr>) = None"
    using assms(2,3) by (simp add: checkState_def TIMEOUT_def)
  have a1: "a_auto_arm ?a1 = a_auto_arm a" "a_thrust ?a1 = a_thrust a" "a_roll_rate ?a1 = a_roll_rate a"
    "a_pitch_rate ?a1 = a_pitch_rate a" "a_yaw_rate ?a1 = a_yaw_rate a"
    by simp_all
  define w3 where "w3 = snd (serve_setpoint RATES ?a1
      (lookup_reference_frame (a_frame_id ?a1) (w\<lparr>busy := True\<rparr>)) (now w) (w\<lparr>busy := True\<rparr>))"
  define w4 where "w4 = serve_start (a_auto_arm a) (now w) w3"
  have w3: "w3 = w\<lparr>busy := True, setpoint_type := RATES,
               thrust_msg := (thrust_msg w)\<lparr>content := a_thrust a\<rparr>,
               rates_msg := (rates_msg w)\<lparr>content := (content (rates_msg w))
                 \<lparr>twist_angular := \<lparr>cx = a_roll_rate a, cy = a_pitch_rate a, cz = a_yaw_rate a\<rparr>\<rparr>\<rparr>\<rparr>"
    unfolding w3_def serve_setpoint_RATES a1 by simp
  have w4: "w4 = rates_started a w"
    unfolding w4_def serve_start_def w3 rates_started_def by (simp add: publish_RATES)
  have "serve_try RATES a (now w) w = serve_arm (a_auto_arm a) w4"
    using assms(1)
    by (simp add: serve_try_def serve_checks_RATES [OF c] serve_wait_def serve_global_def
          serve_setpoint_RATES Let_def w4_def w3_def a1 del: if_split cong: if_cong)
  then show ?thesis
    unfolding w4 .
qed

lemma serve_RATES:
  assumes "\<not> busy w"
    and "\<not> TIMEOUT w (state w) (state_timeout (par w))"
    and "state_connected (content (state w))"
    and "state_mode (content (state w)) = ''OFFBOARD''"
    and "state_armed (content (state w))"
  shows "serve RATES a res w = (Ok (res\<lparr>success := True\<rparr>), rates_accepted a w)"
proof -
  have s4: "state (rates_started a w) = state w"
    unfolding rates_started_def by (simp add: publish_rates_keeps)
  have arm: "serve_arm (a_auto_arm a) (rates_started a w) =
               (Ok (), if a_auto_arm a then (rates_started a w)\<lparr>wait_armed := False\<rparr> else rates_started a w)"
    using assms(4,5) by (intro serve_arm_ready) (simp_all add: s4)
  have fin: "(if a_auto_arm a then (rates_started a w)\<lparr>wait_armed := False\<rparr> else rates_started a w)\<lparr>busy := False\<rparr>
               = rates_accepted a w"
    unfolding rates_accepted_def rates_started_def by (simp add: publish_rates_def Let_def)
  show ?thesis
    unfolding serve_def serve_try_RATES [OF assms(1-3)] arm using fin by simp
qed

lemma publish_RATES_sends:
  assumes "setpoint_type w = RATES"
  shows "setpoint_type (publish t w) = RATES \<and> par (publish t w) = par w
       \<and> content (thrust_msg (publish t w)) = content (thrust_msg w)
       \<and> twist_angular (content (rates_msg (publish t w))) = twist_angular (content (rates_msg w))
       \<and> (\<exists>m. sent (publish t w) = m # sent w \<and>
             rates_message (fcu_frame (par w)) (twist_angular (content (rates_msg w)))
               (content (thrust_msg w)) t m)"
  using assms by (simp add: publish_RATES [OF assms] publish_rates_def Let_def)

lemma ticks_RATES:
  assumes "setpoint_type w = RATES"
  shows "\<exists>ms. sent (ticks ts w) = ms @ sent w \<and>
           list_all2 (rates_message (fcu_frame (par w)) (twist_angular (content (rates_msg w)))
                        (content (thrust_msg w))) (rev ts) ms"
  using assms
proof (induction ts arbitrary: w)
  case Nil
  then show ?case by (simp add: ticks_def)
next
  case (Cons t ts)
  from publish_RATES_sends [OF Cons.prems, of t]
  obtain m where k: "setpoint_type (publish t w) = RATES" "par (publish t w) = par w"
      "content (thrust_msg (publish t w)) = content (thrust_msg w)"
      "twist_angular (content (rates_msg (publish t w))) = twist_angular (content (rates_msg w))"
    and m: "sent (publish t w) = m # sent w"
      "rates_message (fcu_frame (par w)) (twist_angular (content (rates_msg w))) (content (thrust_msg w)) t m"
    by blast
  from Cons.IH [OF k(1)]
  obtain ms where ms: "sent (ticks ts (publish t w)) = ms @ sent (publish t w)"
      "list_all2 (rates_message (fcu_frame (par w)) (twist_angular (content (rates_msg w)))
                        (content (thrust_msg w))) (rev ts) ms"
    unfolding k by blast
  have "sent (ticks (t # ts) w) = (ms @ [m]) @ sent w"
    using ms(1) m(1) by (simp add: ticks_def)
  moreover have "list_all2 (rates_message (fcu_frame (par w)) (twist_angular (content (rates_msg w)))
                        (content (thrust_msg w))) (rev (t # ts)) (ms @ [m])"
    using ms(2) m(2) by (auto intro: list_all2_appendI)
  ultimately show ?case by blast
qed

lemma rates_accepted_sends:
  "setpoint_type (rates_accepted a w) = RATES \<and> par (rates_accepted a w) = par w
   \<and> content (thrust_msg (rates_accepted a w)) = a_thrust a
   \<and> twist_angular (content (rates_msg (rates_accepted a w))) =
        \<lparr>cx = a_roll_rate a, cy = a_pitch_rate a, cz = a_yaw_rate a\<rparr>
   \<and> (\<exists>m. sent (rates_accepted a w) = m # sent w \<and>
         rates_message (fcu_frame (par w)) \<lparr>cx = a_roll_rate a, cy = a_pitch_rate a, cz = a_yaw_rate a\<rparr>
           (a_thrust a) (now w) m)"
  by (simp add: rates_accepted_def rates_started_def publish_rates_def Let_def)

lemma rates_accepted_tf:
  "rates_accepted a (w\<lparr>tf_buffer := B\<rparr>) = (rates_accepted a w)\<lparr>tf_buffer := B\<rparr>"
  by (simp add: rates_accepted_def rates_started_def publish_rates_def Let_def)

lemma rates_accepted_reference_frames:
  "rates_accepted a (w\<lparr>par := (par w)\<lparr>reference_frames := R\<rparr>\<rparr>) =
     (rates_accepted a w)\<lparr>par := (par w)\<lparr>reference_frames := R\<rparr>\<rparr>"
  by (simp add: rates_accepted_def rates_started_def publish_rates_def Let_def)

text \<open>
  C9. With a fresh and connected autopilot state, in \<^verbatim>\<open>OFFBOARD\<close> mode and armed, and no
  other command running, \<^verbatim>\<open>set_rates\<close> is accepted. The transform buffer \<open>B\<close> and the alias
  map \<open>R\<close> play no part in the run: with any other of either, the answer is the same and the
  state differs in that component only. The first publication and every later tick send one
  message each, on the raw attitude publisher, stamped with the time of the tick, in the
  frame \<open>fcu_frame\<close>, with the type mask \<^verbatim>\<open>IGNORE_ATTITUDE\<close>, the body rates of the command
  (roll, pitch, yaw) and its thrust.
\<close>

theorem set_rates_accepted:
  assumes "\<not> busy w"
    and "\<not> TIMEOUT w (state w) (state_timeout (par w))"
    and "state_connected (content (state w))"
    and "state_mode (content (state w)) = ''OFFBOARD''"
    and "state_armed (content (state w))"
  shows "fst (setRates pitch_rate roll_rate yaw_rate thrust auto_arm default_response w) =
           Ok \<lparr>success = True, message = []\<rparr>
       \<and> setRates pitch_rate roll_rate yaw_rate thrust auto_arm default_response (w\<lparr>tf_buffer := B\<rparr>) =
           (fst (setRates pitch_rate roll_rate yaw_rate thrust auto_arm default_response w),
            (snd (setRates pitch_rate roll_rate yaw_rate thrust auto_arm default_response w))\<lparr>tf_buffer := B\<rparr>)
       \<and> setRates pitch_rate roll_rate yaw_rate thrust auto_arm default_response
            (w\<lparr>par := (par w)\<lparr>reference_frames := R\<rparr>\<rparr>) =
           (fst (setRates pitch_rate roll_rate yaw_rate thrust auto_arm default_response w),
            (snd (setRates pitch_rate roll_rate yaw_rate thrust auto_arm default_response w))
              \<lparr>par := (par w)\<lparr>reference_frames := R\<rparr>\<rparr>)
       \<and> (\<exists>ms. sent (ticks ts (snd (setRates pitch_rate roll_rate yaw_rate thrust auto_arm default_response w)))
                  = ms @ sent w
              \<and> list_all2 (rates_message (fcu_frame (par w))
                             \<lparr>cx = roll_rate, cy = pitch_rate, cz = yaw_rate\<rparr> thrust)
                   (rev (now w # ts)) ms)"
proof -
  let ?a = "no_args\<lparr>a_pitch_rate := pitch_rate, a_roll_rate := roll_rate, a_yaw_rate := yaw_rate,
                         a_thrust := thrust, a_auto_arm := auto_arm\<rparr>"
  have a: "a_roll_rate ?a = roll_rate" "a_pitch_rate ?a = pitch_rate" "a_yaw_rate ?a = yaw_rate"
    "a_thrust ?a = thrust"
    by simp_all
  have r: "setRates pitch_rate roll_rate yaw_rate thrust auto_arm default_response w =
             (Ok \<lparr>success = True, message = []\<rparr>, rates_accepted ?a w)"
    using serve_RATES [OF assms, of ?a default_response]
    by (simp add: setRates_def default_response_def)
  have rB: "setRates pitch_rate roll_rate yaw_rate thrust auto_arm default_response (w\<lparr>tf_buffer := B\<rparr>) =
             (Ok \<lparr>success = True, message = []\<rparr>, rates_accepted ?a (w\<lparr>tf_buffer := B\<rparr>))"
    using assms serve_RATES [of "w\<lparr>tf_buffer := B\<rparr>" ?a default_response]
    by (simp add: setRates_def default_response_def TIMEOUT_def)
  have rR: "setRates pitch_rate roll_rate yaw_rate thrust auto_arm default_response
              (w\<lparr>par := (par w)\<lparr>reference_frames := R\<rparr>\<rparr>) =
             (Ok \<lparr>success = True, message = []\<rparr>,
              rates_accepted ?a (w\<lparr>par := (par w)\<lparr>reference_frames := R\<rparr>\<rparr>))"
    using assms serve_RATES [of "w\<lparr>par := (par w)\<lparr>reference_frames := R\<rparr>\<rparr>" ?a default_response]
    by (simp add: setRates_def default_response_def TIMEOUT_def)
  from rates_accepted_sends [of ?a w]
  obtain m where k: "setpoint_type (rates_accepted ?a w) = RATES" "par (rates_accepted ?a w) = par w"
      "content (thrust_msg (rates_accepted ?a w)) = thrust"
      "twist_angular (content (rates_msg (rates_accepted ?a w))) =
         \<lparr>cx = roll_rate, cy = pitch_rate, cz = yaw_rate\<rparr>"
    and m: "sent (rates_accepted ?a w) = m # sent w"
      "rates_message (fcu_frame (par w)) \<lparr>cx = roll_rate, cy = pitch_rate, cz = yaw_rate\<rparr> thrust (now w) m"
    unfolding a by blast
  from ticks_RATES [OF k(1), of ts]
  obtain ms where ms: "sent (ticks ts (rates_accepted ?a w)) = ms @ sent (rates_accepted ?a w)"
      "list_all2 (rates_message (fcu_frame (par w)) \<lparr>cx = roll_rate, cy = pitch_rate, cz = yaw_rate\<rparr> thrust)
         (rev ts) ms"
    unfolding k by blast
  have "sent (ticks ts (rates_accepted ?a w)) = (ms @ [m]) @ sent w"
    using ms(1) m(1) by simp
  moreover have "list_all2 (rates_message (fcu_frame (par w)) \<lparr>cx = roll_rate, cy = pitch_rate, cz = yaw_rate\<rparr> thrust)
         (rev (now w # ts)) (ms @ [m])"
    using ms(2) m(2) by (auto intro: list_all2_appendI)
  ultimately have "\<exists>ms. sent (ticks ts (rates_accepted ?a w)) = ms @ sent w
              \<and> list_all2 (rates_message (fcu_frame (par w))
                             \<lparr>cx = roll_rate, cy = pitch_rate, cz = yaw_rate\<rparr> thrust)
                   (rev (now w # ts)) ms"
    by blast
  then show ?thesis
    unfolding r rB rR by (simp add: rates_accepted_tf rates_accepted_reference_frames)
qed

text \<open>
  For example in a state whose transform buffer knows no transform at all: the command is
  accepted, and the first publication (at time 0) and a tick at time 1 send the rates.
\<close>

theorem set_rates_accepted_witness:
  "fst (setRates (Fin 0) (Fin 0) (Fin (1 / 2)) (Fin (3 / 10)) False default_response (flying\<lparr>tf_buffer := no_tf\<rparr>))
     = Ok \<lparr>success = True, message = []\<rparr>
   \<and> (\<exists>ms. sent (ticks [1] (snd (setRates (Fin 0) (Fin 0) (Fin (1 / 2)) (Fin (3 / 10)) False default_response
                                      (flying\<lparr>tf_buffer := no_tf\<rparr>))))
              = ms @ sent (flying\<lparr>tf_buffer := no_tf\<rparr>)
          \<and> list_all2 (rates_message ''base_link'' \<lparr>cx = Fin 0, cy = Fin 0, cz = Fin (1 / 2)\<rparr> (Fin (3 / 10)))
               [1, 0] ms)"
proof -
  have "\<not> busy (flying\<lparr>tf_buffer := no_tf\<rparr>)"
    and "\<not> TIMEOUT (flying\<lparr>tf_buffer := no_tf\<rparr>) (state (flying\<lparr>tf_buffer := no_tf\<rparr>))
              (state_timeout (par (flying\<lparr>tf_buffer := no_tf\<rparr>)))"
    and "state_connected (content (state (flying\<lparr>tf_buffer := no_tf\<rparr>)))"
    and "state_mode (content (state (flying\<lparr>tf_buffer := no_tf\<rparr>))) = ''OFFBOARD''"
    and "state_armed (content (state (flying\<lparr>tf_buffer := no_tf\<rparr>)))"
    by (simp_all add: flying_def example_state_def main_state_def TIMEOUT_def state_msg_def default_params_def)
  note r = set_rates_accepted [OF this, of "Fin 0" "Fin 0" "Fin (1 / 2)" "Fin (3 / 10)" False no_tf Map.empty "[1]"]
  have f: "fcu_frame (par (flying\<lparr>tf_buffer := no_tf\<rparr>)) = ''base_link''"
    and n: "now (flying\<lparr>tf_buffer := no_tf\<rparr>) = 0"
    by (simp_all add: flying_def example_state_def main_state_def default_params_def)
  show ?thesis
    using r unfolding f n by simp
qed

section \<open>Telemetry in the frame of the request\<close>

lemma telemetry_pose_fields:
  assumes "t_x res = NaN" "t_y res = NaN" "t_z res = NaN"
  shows "t_frame_id (telemetry_pose F w res) = t_frame_id res
       \<and> \<lparr>cx = t_x (telemetry_pose F w res), cy = t_y (telemetry_pose F w res),
           cz = t_z (telemetry_pose F w res)\<rparr> = position_in F w
       \<and> t_vx (telemetry_pose F w res) = t_vx res \<and> t_vy (telemetry_pose F w res) = t_vy res
       \<and> t_vz (telemetry_pose F w res) = t_vz res"
  using assms
  by (auto simp: telemetry_pose_def position_in_def nan_point_def split: sum.splits prod.splits)

lemma telemetry_velocity_fields:
  assumes "t_vx res = NaN" "t_vy res = NaN" "t_vz res = NaN"
  shows "t_frame_id (telemetry_velocity F w res) = t_frame_id res
       \<and> t_x (telemetry_velocity F w res) = t_x res \<and> t_y (telemetry_velocity F w res) = t_y res
       \<and> t_z (telemetry_velocity F w res) = t_z res
       \<and> \<lparr>cx = t_vx (telemetry_velocity F w res), cy = t_vy (telemetry_velocity F w res),
           cz = t_vz (telemetry_velocity F w res)\<rparr> = velocity_in F w"
  using assms
  by (auto simp: telemetry_velocity_def velocity_in_def nan_point_def Let_def split: sum.splits)

lemma telemetry_global_fields:
  "t_frame_id (telemetry_global w res) = t_frame_id res
   \<and> t_x (telemetry_global w res) = t_x res \<and> t_y (telemetry_global w res) = t_y res
   \<and> t_z (telemetry_global w res) = t_z res
   \<and> t_vx (telemetry_global w res) = t_vx res \<and> t_vy (telemetry_global w res) = t_vy res
   \<and> t_vz (telemetry_global w res) = t_vz res"
  by (simp add: telemetry_global_def)

lemma telemetry_battery_fields:
  "t_frame_id (telemetry_battery w res) = t_frame_id res
   \<and> t_x (telemetry_battery w res) = t_x res \<and> t_y (telemetry_battery w res) = t_y res
   \<and> t_z (telemetry_battery w res) = t_z res
   \<and> t_vx (telemetry_battery w res) = t_vx res \<and> t_vy (telemetry_battery w res) = t_vy res
   \<and> t_vz (telemetry_battery w res) = t_vz res"
  by (simp add: telemetry_battery_def Let_def split: list.splits)

text \<open>
  C10. When \<^verbatim>\<open>getTelemetry\<close> returns, the \<open>frame_id\<close> of the response is the frame of the
  request, or \<open>local_frame\<close> when the request's is empty, and the position and the linear
  velocity of the response are those read in that very frame.
\<close>

theorem telemetry_frame_echo:
  assumes "getTelemetry frame res w = (Ok r, w')"
  shows "t_frame_id r = (if frame = [] then local_frame (par w) else frame)
       \<and> \<lparr>cx = t_x r, cy = t_y r, cz = t_z r\<rparr> = position_in (t_frame_id r) w'
       \<and> \<lparr>cx = t_vx r, cy = t_vy r, cz = t_vz r\<rparr> = velocity_in (t_frame_id r) w'"
proof -
  let ?F = "telemetry_frame frame w"
  let ?res1 = "res\<lparr>t_frame_id := ?F,
                   t_x := NaN, t_y := NaN, t_z := NaN, t_lat := NaN, t_lon := NaN, t_alt := NaN,
                   t_vx := NaN, t_vy := NaN, t_vz := NaN, t_pitch := NaN, t_roll := NaN, t_yaw := NaN,
                   t_pitch_rate := NaN, t_roll_rate := NaN, t_yaw_rate := NaN,
                   t_voltage := NaN, t_cell_voltage := NaN\<rparr>"
  let ?res2 = "if \<not> TIMEOUT w (state w) (state_timeout (par w))
               then ?res1\<lparr>t_connected := state_connected (content (state w)),
                          t_armed := state_armed (content (state w)),
                          t_mode := state_mode (content (state w))\<rparr>
               else ?res1"
  let ?p = "telemetry_pose ?F w' ?res2"
  let ?v = "telemetry_velocity ?F w' ?p"
  have r: "r = telemetry_battery w' (telemetry_global w' ?v)"
    using assms by (auto simp: getTelemetry_def Let_def split: prod.splits res.splits)
  have n2: "t_x ?res2 = NaN" "t_y ?res2 = NaN" "t_z ?res2 = NaN"
    "t_vx ?res2 = NaN" "t_vy ?res2 = NaN" "t_vz ?res2 = NaN" "t_frame_id ?res2 = ?F"
    by simp_all
  note p = telemetry_pose_fields [OF n2(1-3), of ?F w']
  have "t_vx ?p = NaN" "t_vy ?p = NaN" "t_vz ?p = NaN"
    using p n2 by simp_all
  note v = telemetry_velocity_fields [OF this, of ?F w']
  have F: "t_frame_id r = ?F"
    unfolding r using p v n2(7) by (simp add: telemetry_battery_fields telemetry_global_fields)
  have "\<lparr>cx = t_x r, cy = t_y r, cz = t_z r\<rparr> = position_in ?F w'"
    unfolding r using p v by (simp add: telemetry_battery_fields telemetry_global_fields)
  moreover have "\<lparr>cx = t_vx r, cy = t_vy r, cz = t_vz r\<rparr> = velocity_in ?F w'"
    unfolding r using p v by (simp add: telemetry_battery_fields telemetry_global_fields)
  ultimately show ?thesis
    unfolding F by (simp add: telemetry_frame_def)
qed

text \<open>A transform that is there at once is not waited for.\<close>

lemma waitTransform_ready:
  assumes "ok w" and "0 \<le> timeout" and "canTransform (tf_buffer w) tgt source stmp"
  shows "waitTransform tgt source stmp timeout w = (Ok True, w)"
  using assms by (simp add: waitTransform_def)

text \<open>
  For example a request with an empty frame, in a state where every transform is the
  identity: the call returns, and the response names \<open>map\<close>, the default \<open>local_frame\<close>.
\<close>

theorem telemetry_frame_echo_witness:
  "\<exists>r. fst (getTelemetry [] empty_telemetry flying) = Ok r \<and> t_frame_id r = ''map''
        \<and> \<lparr>cx = t_x r, cy = t_y r, cz = t_z r\<rparr> = position_in ''map'' (snd (getTelemetry [] empty_telemetry flying))
        \<and> \<lparr>cx = t_vx r, cy = t_vy r, cz = t_vz r\<rparr> = velocity_in ''map'' (snd (getTelemetry [] empty_telemetry flying))"
proof -
  have f: "ok flying" "0 \<le> telemetry_transform_timeout (par flying)"
    "canTransform (tf_buffer flying) (local_frame (par flying)) (telemetry_frame [] flying) (now flying)"
    "local_frame (par flying) = ''map''"
    by (simp_all add: flying_def example_state_def main_state_def default_params_def identity_tf_def)
  have "\<exists>r. getTelemetry [] empty_telemetry flying = (Ok r, flying)"
    by (simp add: getTelemetry_def Let_def waitTransform_ready [OF f(1-3)])
  then obtain r where h: "getTelemetry [] empty_telemetry flying = (Ok r, flying)"
    by blast
  from telemetry_frame_echo [OF h]
  show ?thesis
    unfolding h by (simp add: f(4))
qed

section \<open>Projection of a global position\<close>




section \<open>Failures of a command\<close>

lemma timer_flags_publish: "timer_flags (publish t w) = timer_flags w"
proof -
  have 1: "timer_flags (publish_transform t w) = timer_flags w" for t w
    by (simp add: timer_flags_def publish_transform_def Let_def split: sum.splits)
  have 2: "timer_flags (publish_target w) = timer_flags w" for w
    by (simp add: timer_flags_def publish_target_def Let_def)
  have 3: "timer_flags (publish_navigate t w) = timer_flags w" for t w
    using getNavigateSetpoint_state [of t "nav_speed w" w]
    by (auto simp: timer_flags_def publish_navigate_def Let_def split: prod.splits if_splits)
  have 4: "timer_flags (publish_position t w) = timer_flags w" for t w
    by (simp add: timer_flags_def publish_position_def Let_def)
  have 5: "timer_flags (publish_velocity w) = timer_flags w" for w
    by (simp add: timer_flags_def publish_velocity_def Let_def)
  have 6: "timer_flags (publish_attitude w) = timer_flags w" for w
    by (simp add: timer_flags_def publish_attitude_def)
  have 7: "timer_flags (publish_rates t w) = timer_flags w" for t w
    by (simp add: timer_flags_def publish_rates_def Let_def)
  have 0: "timer_flags (w\<lparr>position_raw_msg := a, thrust_msg := b, rates_msg := c\<rparr>) = timer_flags w" for a b c
    by (simp add: timer_flags_def)
  have 8: "timer_flags (w\<lparr>position_msg := a\<rparr>) = timer_flags w" for a w
    by (simp add: timer_flags_def)
  show ?thesis
    by (simp add: publish_def Let_def 0 1 2 3 4 5 6 7 8)
qed

lemma timer_flags_handle_event: "timer_flags (handle_event e w) = timer_flags w"
  by (cases e)
     (simp_all add: timer_flags_publish, simp_all add: timer_flags_def handleLocalPosition_def publishBodyFrame_def Let_def)

lemma timer_flags_spinOnce: "timer_flags (spinOnce w) = timer_flags w"
proof -
  have "timer_flags (fold handle_event es w) = timer_flags w" for es w
    by (induction es arbitrary: w) (simp_all add: timer_flags_handle_event)
  moreover have "timer_flags (w\<lparr>pending := p\<rparr>) = timer_flags w" for p
    by (simp add: timer_flags_def)
  ultimately show ?thesis
    by (simp add: spinOnce_def split: list.splits)
qed

lemma timer_flags_sleep: "sleep w = Some w' \<Longrightarrow> timer_flags w' = timer_flags w"
  by (auto simp: sleep_def timer_flags_def split: list.splits)

lemma timer_flags_wait_offboard: "timer_flags (snd (wait_offboard start w)) = timer_flags w"
proof (induction start w rule: wait_offboard.induct)
  case (1 start w0)
  show ?case
  proof (cases "sleep (spinOnce (spinOnce w0))")
    case None
    then show ?thesis
      by (subst wait_offboard.simps) (simp add: Let_def timer_flags_spinOnce)
  next
    case (Some w')
    have "timer_flags w' = timer_flags w0"
      using timer_flags_sleep [OF Some] by (simp add: timer_flags_spinOnce)
    then show ?thesis
      using "1.IH" [OF _ refl _ _ Some] Some
      by (subst wait_offboard.simps) (auto simp: Let_def timer_flags_spinOnce)
  qed
qed

lemma timer_flags_wait_armed_loop: "timer_flags (snd (wait_armed_loop start w)) = timer_flags w"
proof (induction start w rule: wait_armed_loop.induct)
  case (1 start w0)
  show ?case
  proof (cases "sleep (spinOnce (spinOnce w0))")
    case None
    then show ?thesis
      by (subst wait_armed_loop.simps) (simp add: Let_def timer_flags_spinOnce)
  next
    case (Some w')
    have "timer_flags w' = timer_flags w0"
      using timer_flags_sleep [OF Some] by (simp add: timer_flags_spinOnce)
    then show ?thesis
      using "1.IH" [OF _ refl _ _ Some] Some
      by (subst wait_armed_loop.simps) (auto simp: Let_def timer_flags_spinOnce)
  qed
qed

lemma timer_flags_offboardAndArm: "timer_flags (snd (offboardAndArm w)) = timer_flags w"
proof -
  have 1: "timer_flags (snd (switch_offboard w)) = timer_flags w" for w
    by (simp add: switch_offboard_def timer_flags_wait_offboard del: wait_offboard.simps)
  have 2: "timer_flags (snd (arm w)) = timer_flags w" for w
    by (simp add: arm_def timer_flags_wait_armed_loop del: wait_armed_loop.simps)
  show ?thesis
    using 1 [of w] 2 [of "snd (switch_offboard w)"]
    by (auto simp: offboardAndArm_def split: prod.splits res.splits)
qed

lemma rates_started_fields:
  "timer_flags (rates_started a w) = (True, a_auto_arm a) \<and> setpoint_type (rates_started a w) = RATES
   \<and> state (rates_started a w) = state w \<and> set_mode_srv (rates_started a w) = set_mode_srv w
   \<and> arming_srv (rates_started a w) = arming_srv w \<and> now (rates_started a w) = now w
   \<and> ok (rates_started a w) = ok w \<and> pending (rates_started a w) = pending w
   \<and> sleeps (rates_started a w) = sleeps w \<and> par (rates_started a w) = par w
   \<and> statustext (rates_started a w) = statustext w"
  by (simp add: rates_started_def publish_rates_def Let_def timer_flags_def)

text \<open>
  C3, where the code departs from it. A \<^verbatim>\<open>RATES\<close> command with \<open>auto_arm\<close> that passes the
  checks starts the timer and then calls \<^verbatim>\<open>offboardAndArm\<close>. When that throws, whatever the
  reason, the handler stores the message, clears \<open>busy\<close> and answers without \<open>success\<close>, but the
  timer it started keeps running, and \<open>wait_armed\<close> stays set.
\<close>

theorem auto_arm_failure_keeps_timer:
  assumes "\<not> busy w"
    and "\<not> TIMEOUT w (state w) (state_timeout (par w))"
    and "state_connected (content (state w))"
    and "a_auto_arm a"
    and "offboardAndArm (rates_started a w) = (Throw e, w')"
  shows "serve RATES a default_response w = (Ok \<lparr>success = False, message = e\<rparr>, w'\<lparr>busy := False\<rparr>)
       \<and> \<not> busy (w'\<lparr>busy := False\<rparr>)
       \<and> timer_running (w'\<lparr>busy := False\<rparr>)
       \<and> wait_armed (w'\<lparr>busy := False\<rparr>)"
proof -
  have "timer_flags w' = (True, True)"
    using timer_flags_offboardAndArm [of "rates_started a w"] assms(4,5)
    by (simp add: rates_started_fields)
  moreover have "serve RATES a default_response w = (Ok \<lparr>success = False, message = e\<rparr>, w'\<lparr>busy := False\<rparr>)"
    using assms(4,5)
    by (simp add: serve_def serve_try_RATES [OF assms(1-3)] serve_arm_def default_response_def)
  ultimately show ?thesis
    by (simp add: timer_flags_def)
qed

text \<open>
  The sibling path: without \<open>auto_arm\<close>, a vehicle that is not in \<^verbatim>\<open>OFFBOARD\<close> mode or not armed
  makes the same command fail with the timer stopped.
\<close>

lemma no_auto_arm_failure_stops_timer:
  assumes "\<not> busy w"
    and "\<not> TIMEOUT w (state w) (state_timeout (par w))"
    and "state_connected (content (state w))"
    and "\<not> a_auto_arm a"
    and "state_mode (content (state w)) \<noteq> ''OFFBOARD'' \<or> \<not> state_armed (content (state w))"
  shows "\<exists>e w'. serve RATES a default_response w = (Ok \<lparr>success = False, message = e\<rparr>, w') \<and>
           \<not> busy w' \<and> \<not> timer_running w'"
  using assms(4,5)
  by (auto simp: serve_def serve_try_RATES [OF assms(1-3)] serve_arm_def default_response_def
        rates_started_fields)

text \<open>
  Two such failures on the ground, for \<open>set_rates\<close> with \<open>auto_arm\<close>: the call of the
  \<^verbatim>\<open>set_mode\<close> service fails, or the service answers and the mode never changes, so that the
  wait ends after a sleep of 4 seconds, past \<open>offboard_timeout\<close>.
\<close>

theorem auto_arm_failure_keeps_timer_witness:
  "fst (serve RATES (no_args\<lparr>a_thrust := Fin (1 / 2), a_auto_arm := True\<rparr>) default_response
          (grounded\<lparr>set_mode_srv := (\<lambda>m. (False, False))\<rparr>))
     = Ok \<lparr>success = False, message = ''Error calling set_mode service''\<rparr>
   \<and> timer_running (snd (serve RATES (no_args\<lparr>a_thrust := Fin (1 / 2), a_auto_arm := True\<rparr>) default_response
          (grounded\<lparr>set_mode_srv := (\<lambda>m. (False, False))\<rparr>)))
   \<and> fst (serve RATES (no_args\<lparr>a_thrust := Fin (1 / 2), a_auto_arm := True\<rparr>) default_response
          (grounded\<lparr>sleeps := [4000000000]\<rparr>))
     = Ok \<lparr>success = False, message = ''OFFBOARD timed out''\<rparr>
   \<and> timer_running (snd (serve RATES (no_args\<lparr>a_thrust := Fin (1 / 2), a_auto_arm := True\<rparr>) default_response
          (grounded\<lparr>sleeps := [4000000000]\<rparr>)))"
proof -
  let ?a = "no_args\<lparr>a_thrust := Fin (1 / 2), a_auto_arm := True\<rparr>"
  let ?w1 = "grounded\<lparr>set_mode_srv := (\<lambda>m. (False, False))\<rparr>"
  let ?w2 = "grounded\<lparr>sleeps := [4000000000]\<rparr>"
  have g: "\<not> busy grounded" "now grounded = 0" "stamp (header (state grounded)) = 0"
    "state_timeout (par grounded) = 3000000000" "state_connected (content (state grounded))"
    "state_mode (content (state grounded)) = ''POSCTL''" "ok grounded" "pending grounded = []"
    "offboard_timeout (par grounded) = 3000000000" "stamp (header (statustext grounded)) = 0"
    "set_mode_srv grounded = (\<lambda>m. (True, True))"
    by (simp_all add: grounded_def example_state_def main_state_def default_params_def state_msg_def
          zero_header_def)
  have a: "a_auto_arm ?a"
    by simp
  have h1: "\<not> busy ?w1" "\<not> TIMEOUT ?w1 (state ?w1) (state_timeout (par ?w1))"
    "state_connected (content (state ?w1))"
    by (simp_all add: g TIMEOUT_def)
  have h2: "\<not> busy ?w2" "\<not> TIMEOUT ?w2 (state ?w2) (state_timeout (par ?w2))"
    "state_connected (content (state ?w2))"
    by (simp_all add: g TIMEOUT_def)
  have o1: "offboardAndArm (rates_started ?a ?w1) =
              (Throw ''Error calling set_mode service'', rates_started ?a ?w1)"
    by (simp add: offboardAndArm_def switch_offboard_def rates_started_fields g
          del: wait_offboard.simps)
  have o2: "offboardAndArm (rates_started ?a ?w2) =
              (Throw ''OFFBOARD timed out'', (rates_started ?a ?w2)\<lparr>now := 4000000000, sleeps := []\<rparr>)"
    by (simp add: offboardAndArm_def switch_offboard_def rates_started_fields g spinOnce_def
          sleep_def timeout_report_def)
  show ?thesis
    using auto_arm_failure_keeps_timer [OF h1 a o1] auto_arm_failure_keeps_timer [OF h2 a o2]
    by simp
qed

section \<open>Land\<close>

lemma land_try_checked:
  assumes "\<not> busy w"
    and "\<not> TIMEOUT w (state w) (state_timeout (par w))"
    and "state_connected (content (state w))"
    and "land_only_in_offboard (par w) \<longrightarrow> state_mode (content (state w)) = ''OFFBOARD''"
    and "set_mode_srv w ''AUTO.LAND'' = (True, True)"
  shows "land_try res w = land_loop (now w) res (w\<lparr>busy := True\<rparr>)"
  using assms
  by (auto simp: land_try_def checkState_def TIMEOUT_def Let_def simp del: land_loop.simps)

text \<open>
  C4, where the code departs from it. A \<^verbatim>\<open>land\<close> request passes the checks, the mode change
  is acknowledged, and the mode is not yet \<^verbatim>\<open>AUTO.LAND\<close>. While the handler waits, the node is
  asked to shut down: the next \<^verbatim>\<open>ros::spinOnce()\<close> delivers the request and \<^verbatim>\<open>ros::ok()\<close>
  turns false. The loop is left, and the function ends without a \<^verbatim>\<open>return\<close>: there is no
  result, neither a success nor a timeout message, and \<open>busy\<close> stays set.
\<close>

theorem land_without_result:
  assumes "\<not> busy w"
    and "\<not> TIMEOUT w (state w) (state_timeout (par w))"
    and "state_connected (content (state w))"
    and "land_only_in_offboard (par w) \<longrightarrow> state_mode (content (state w)) = ''OFFBOARD''"
    and "set_mode_srv w ''AUTO.LAND'' = (True, True)"
    and "ok w"
    and "state_mode (content (state w)) \<noteq> ''AUTO.LAND''"
    and "0 \<le> land_timeout (par w)"
    and "pending w = [Shutdown] # rest"
    and "sleeps w = d # ds"
  shows "fst (land res w) = Undefined \<and> busy (snd (land res w)) \<and> \<not> ok (snd (land res w))"
proof -
  let ?w = "w\<lparr>busy := True\<rparr>"
  have s: "spinOnce ?w = w\<lparr>busy := True, pending := rest, ok := False\<rparr>"
    using assms(9) by (simp add: spinOnce_def)
  have "sleep (spinOnce ?w) = Some (w\<lparr>busy := True, pending := rest, ok := False, now := now w + d, sleeps := ds\<rparr>)"
    unfolding s using assms(10) by (simp add: sleep_def)
  then have "land_loop (now w) res ?w =
               land_loop (now w) res (w\<lparr>busy := True, pending := rest, ok := False, now := now w + d, sleeps := ds\<rparr>)"
    using assms(6,7,8) by (subst land_loop.simps) (simp del: land_loop.simps)
  also have "\<dots> = (Undefined, w\<lparr>busy := True, pending := rest, ok := False, now := now w + d, sleeps := ds\<rparr>)"
    by (subst land_loop.simps) simp
  finally show ?thesis
    by (simp add: land_def land_try_checked [OF assms(1-5)])
qed

text \<open>For example in flight, with the shutdown request in the first batch of events.\<close>

theorem land_without_result_witness:
  "fst (land default_response (flying\<lparr>pending := [[Shutdown]], sleeps := [100000000]\<rparr>)) = Undefined
   \<and> busy (snd (land default_response (flying\<lparr>pending := [[Shutdown]], sleeps := [100000000]\<rparr>)))"
proof -
  let ?w = "flying\<lparr>pending := [[Shutdown]], sleeps := [100000000]\<rparr>"
  have "\<not> busy ?w"
    and "\<not> TIMEOUT ?w (state ?w) (state_timeout (par ?w))"
    and "state_connected (content (state ?w))"
    and "land_only_in_offboard (par ?w) \<longrightarrow> state_mode (content (state ?w)) = ''OFFBOARD''"
    and "set_mode_srv ?w ''AUTO.LAND'' = (True, True)"
    and "ok ?w"
    and "state_mode (content (state ?w)) \<noteq> ''AUTO.LAND''"
    and "0 \<le> land_timeout (par ?w)"
    and "pending ?w = [Shutdown] # []"
    and "sleeps ?w = 100000000 # []"
    by (simp_all add: flying_def example_state_def main_state_def default_params_def state_msg_def
          TIMEOUT_def)
  from land_without_result [OF this, of default_response]
  show ?thesis
    by simp
qed

text \<open>
  The two results the claim names do come about while \<^verbatim>\<open>ros::ok()\<close> holds: a mode that is
  already \<^verbatim>\<open>AUTO.LAND\<close> gives \<open>success\<close>, and a wait past \<open>land_timeout\<close> gives the message.
\<close>

lemma land_confirmed:
  assumes "\<not> busy w"
    and "\<not> TIMEOUT w (state w) (state_timeout (par w))"
    and "state_connected (content (state w))"
    and "land_only_in_offboard (par w) \<longrightarrow> state_mode (content (state w)) = ''OFFBOARD''"
    and "set_mode_srv w ''AUTO.LAND'' = (True, True)"
    and "ok w"
    and "pending w = [StateMsg m] # rest"
    and "state_mode (content m) = ''AUTO.LAND''"
    and "state_mode (content (state w)) \<noteq> ''AUTO.LAND''"
    and "0 \<le> land_timeout (par w)"
    and "sleeps w = d # ds"
  shows "fst (land res w) = Ok (res\<lparr>success := True\<rparr>) \<and> \<not> busy (snd (land res w))"
proof -
  let ?w = "w\<lparr>busy := True\<rparr>"
  let ?w' = "w\<lparr>busy := True, pending := rest, state := m, now := now w + d, sleeps := ds\<rparr>"
  have s: "spinOnce ?w = w\<lparr>busy := True, pending := rest, state := m\<rparr>"
    using assms(7) by (simp add: spinOnce_def)
  have "sleep (spinOnce ?w) = Some ?w'"
    unfolding s using assms(11) by (simp add: sleep_def)
  then have "land_loop (now w) res ?w = land_loop (now w) res ?w'"
    using assms(6,9,10) by (subst land_loop.simps) (simp del: land_loop.simps)
  also have "\<dots> = (Ok (res\<lparr>success := True\<rparr>), ?w'\<lparr>busy := False\<rparr>)"
    using assms(6,8) by (subst land_loop.simps) simp
  finally show ?thesis
    by (simp add: land_def land_try_checked [OF assms(1-5)])
qed

lemma land_timed_out:
  assumes "\<not> busy w"
    and "\<not> TIMEOUT w (state w) (state_timeout (par w))"
    and "state_connected (content (state w))"
    and "land_only_in_offboard (par w) \<longrightarrow> state_mode (content (state w)) = ''OFFBOARD''"
    and "set_mode_srv w ''AUTO.LAND'' = (True, True)"
    and "ok w"
    and "pending w = []"
    and "state_mode (content (state w)) \<noteq> ''AUTO.LAND''"
    and "0 \<le> land_timeout (par w)"
    and "sleeps w = d # ds"
    and "land_timeout (par w) < d"
  shows "fst (land res w) = Ok (res\<lparr>message := ''Land request timed out''\<rparr>) \<and> \<not> busy (snd (land res w))"
proof -
  let ?w = "w\<lparr>busy := True\<rparr>"
  let ?w' = "w\<lparr>busy := True, now := now w + d, sleeps := ds\<rparr>"
  have s: "spinOnce ?w = ?w"
    using assms(7) by (simp add: spinOnce_def)
  have "sleep (spinOnce ?w) = Some ?w'"
    unfolding s using assms(10) by (simp add: sleep_def)
  then have "land_loop (now w) res ?w = land_loop (now w) res ?w'"
    using assms(6,8,9) by (subst land_loop.simps) (simp del: land_loop.simps)
  also have "\<dots> = (Throw ''Land request timed out'', ?w')"
    using assms(6,8,11) by (subst land_loop.simps) simp
  finally show ?thesis
    by (simp add: land_def land_try_checked [OF assms(1-5)])
qed

section \<open>The position a navigation tick sends\<close>

lemma navigate_input_keeps:
  "nav_start (navigate_input t w) = nav_start w \<and> nav_speed (navigate_input t w) = nav_speed w
   \<and> wait_armed (navigate_input t w) = wait_armed w
   \<and> setpoint_type (navigate_input t w) = setpoint_type w
   \<and> setpoints (sent (navigate_input t w)) = setpoints (sent w)"
  by (simp add: navigate_input_def publish_target_def publish_transform_def Let_def setpoints_def
        split: sum.splits)

text \<open>
  A tick of a \<^verbatim>\<open>NAVIGATE\<close> or \<^verbatim>\<open>NAVIGATE_GLOBAL\<close> setpoint sends one setpoint message, and the
  position in it is the point \<^verbatim>\<open>getNavigateSetpoint\<close> has computed.
\<close>

lemma navigate_tick_sends:
  assumes "setpoint_type w = NAVIGATE \<or> setpoint_type w = NAVIGATE_GLOBAL"
  shows "\<exists>m. setpoints (sent (publish t w)) = m # setpoints (sent w) \<and>
           position_sent m = Some (fst (getNavigateSetpoint t (nav_speed w) (navigate_input t w)))"
proof -
  let ?w3 = "navigate_input t w"
  have k: "setpoint_type ?w3 = setpoint_type w" "nav_speed ?w3 = nav_speed w"
    "setpoints (sent ?w3) = setpoints (sent w)"
    by (simp_all add: navigate_input_keeps)
  have p: "publish t w = publish_position t (publish_navigate t ?w3)"
    using assms k(1) by (auto simp: publish_def Let_def navigate_input_def publish_navigate_keeps)
  have n: "position (content (position_msg (publish_navigate t ?w3))) =
             fst (getNavigateSetpoint t (nav_speed w) ?w3)"
    "sent (publish_navigate t ?w3) = sent ?w3"
    using getNavigateSetpoint_state [of t "nav_speed w" ?w3]
    by (auto simp: publish_navigate_def Let_def k(2) split: prod.splits if_splits)
  show ?thesis
    unfolding p using n k(3)
    by (cases "setpoint_yaw_type (publish_navigate t ?w3)")
       (simp_all add: publish_position_def Let_def setpoints_def)
qed

text \<open>
  So the message itself carries the NaN point: a navigation whose target is its start, with
  \<open>wait_armed\<close> set and every transform the identity, sends it at any tick.
\<close>

lemma staying_tick_sends_nan:
  "\<exists>m. setpoints (sent (publish t ((staying 0)\<lparr>wait_armed := True, tf_buffer := identity_tf\<rparr>))) =
          m # setpoints (sent ((staying 0)\<lparr>wait_armed := True, tf_buffer := identity_tf\<rparr>))
       \<and> position_sent m = Some nan_point"
proof -
  let ?w = "(staying 0)\<lparr>wait_armed := True, tf_buffer := identity_tf\<rparr>"
  have ty: "setpoint_type ?w = NAVIGATE \<or> setpoint_type ?w = NAVIGATE_GLOBAL"
    and v: "nav_speed ?w = Fin 1"
    and s: "position (content (nav_start ?w)) = point 0 0 0"
    and w: "wait_armed ?w"
    by (simp_all add: staying_def navigating_def pose_at_def)
  have g: "position (content (setpoint_position_transformed (navigate_input t ?w))) = point 0 0 0"
    by (simp add: navigate_input_def publish_target_def publish_transform_def Let_def
          staying_def navigating_def pose_at_def identity_tf_def)
  have s': "position (content (nav_start (navigate_input t ?w))) = point 0 0 0"
    and w': "wait_armed (navigate_input t ?w)"
    using s w by (simp_all add: navigate_input_keeps)
  have "fst (getNavigateSetpoint t (Fin 1) (navigate_input t ?w)) = nan_point"
    using getNavigateSetpoint_zero_distance [OF s' g, of 1 t] w'
    by (simp add: nav_stamp_def)
  then show ?thesis
    using navigate_tick_sends [OF ty, of t] by (simp add: v)
qed

section \<open>A second command during the same body\<close>

text \<open>
  C1, where the code departs from it. While the body of a command is at work, with a fresh
  and connected autopilot state, a first \<open>set_rates\<close> is answered \<open>Busy\<close> and changes nothing
  but \<open>busy\<close>, which it clears. A second \<open>set_rates\<close>, issued while that same body is still at
  work, therefore passes the guard. It is not answered \<open>Busy\<close>: it stores its own setpoint
  type, clears \<open>wait_armed\<close>, and is accepted when the vehicle is in \<^verbatim>\<open>OFFBOARD\<close> mode and armed,
  or else fails for the mode or the arming and stops the timer of the command at work.
\<close>

theorem busy_cleared_by_rejection:
  assumes "busy w"
    and "\<not> TIMEOUT w (state w) (state_timeout (par w))"
    and "state_connected (content (state w))"
  shows "setRates pitch_rate roll_rate yaw_rate thrust False default_response w =
           (Ok \<lparr>success = False, message = ''Busy''\<rparr>, w\<lparr>busy := False\<rparr>)
       \<and> fst (setRates pitch_rate roll_rate yaw_rate thrust False default_response (w\<lparr>busy := False\<rparr>)) =
           (if state_mode (content (state w)) \<noteq> ''OFFBOARD''
            then Ok \<lparr>success = False, message = ''Copter is not in OFFBOARD mode, use auto_arm?''\<rparr>
            else if \<not> state_armed (content (state w))
            then Ok \<lparr>success = False, message = ''Copter is not armed, use auto_arm?''\<rparr>
            else Ok \<lparr>success = True, message = []\<rparr>)
       \<and> setpoint_type (snd (setRates pitch_rate roll_rate yaw_rate thrust False default_response
                                 (w\<lparr>busy := False\<rparr>))) = RATES
       \<and> \<not> wait_armed (snd (setRates pitch_rate roll_rate yaw_rate thrust False default_response
                                 (w\<lparr>busy := False\<rparr>)))
       \<and> timer_running (snd (setRates pitch_rate roll_rate yaw_rate thrust False default_response
                                 (w\<lparr>busy := False\<rparr>))) =
           (state_mode (content (state w)) = ''OFFBOARD'' \<and> state_armed (content (state w)))"
proof -
  let ?a = "no_args\<lparr>a_pitch_rate := pitch_rate, a_roll_rate := roll_rate, a_yaw_rate := yaw_rate,
                         a_thrust := thrust, a_auto_arm := False\<rparr>"
  let ?w1 = "w\<lparr>busy := False\<rparr>"
  let ?s = "rates_started ?a ?w1"
  have h: "\<not> busy ?w1" "\<not> TIMEOUT ?w1 (state ?w1) (state_timeout (par ?w1))"
    "state_connected (content (state ?w1))"
    using assms(2,3) by (simp_all add: TIMEOUT_def)
  have f: "timer_running ?s" "\<not> wait_armed ?s" "setpoint_type ?s = RATES" "state ?s = state w"
    using rates_started_fields [of ?a ?w1] by (simp_all add: timer_flags_def)
  have t: "serve_try RATES ?a (now ?w1) ?w1 = serve_arm False ?s"
    using serve_try_RATES [OF h, of ?a] by simp
  have 1: "setRates pitch_rate roll_rate yaw_rate thrust False default_response w =
           (Ok \<lparr>success = False, message = ''Busy''\<rparr>, w\<lparr>busy := False\<rparr>)"
    using assms(1) by (simp add: setRates_def serve_busy)
  have 2: "setRates pitch_rate roll_rate yaw_rate thrust False default_response ?w1 =
            (if state_mode (content (state w)) \<noteq> ''OFFBOARD''
             then (Ok \<lparr>success = False, message = ''Copter is not in OFFBOARD mode, use auto_arm?''\<rparr>,
                   ?s\<lparr>timer_running := False, busy := False\<rparr>)
             else if \<not> state_armed (content (state w))
             then (Ok \<lparr>success = False, message = ''Copter is not armed, use auto_arm?''\<rparr>,
                   ?s\<lparr>timer_running := False, busy := False\<rparr>)
             else (Ok \<lparr>success = True, message = []\<rparr>, ?s\<lparr>busy := False\<rparr>))"
    unfolding setRates_def serve_def t
    by (simp add: serve_arm_def f(4) default_response_def)
  show ?thesis
    unfolding 2 using 1 f by simp
qed

text \<open>
  For example during a \<open>navigate\<close> that waits on the ground for the mode and the arming: the
  first \<open>set_rates\<close> is answered \<open>Busy\<close>, the second one is answered for the mode, and it has
  replaced the setpoint type of the navigation, cleared its \<open>wait_armed\<close> and stopped its timer.
\<close>

theorem busy_cleared_by_rejection_witness:
  "setpoint_type arming_navigation = NAVIGATE \<and> wait_armed arming_navigation \<and> timer_running arming_navigation
   \<and> setRates (Fin 0) (Fin 0) (Fin 0) (Fin (1 / 2)) False default_response arming_navigation =
       (Ok \<lparr>success = False, message = ''Busy''\<rparr>, arming_navigation\<lparr>busy := False\<rparr>)
   \<and> fst (setRates (Fin 0) (Fin 0) (Fin 0) (Fin (1 / 2)) False default_response (arming_navigation\<lparr>busy := False\<rparr>)) =
       Ok \<lparr>success = False, message = ''Copter is not in OFFBOARD mode, use auto_arm?''\<rparr>
   \<and> setpoint_type (snd (setRates (Fin 0) (Fin 0) (Fin 0) (Fin (1 / 2)) False default_response
                             (arming_navigation\<lparr>busy := False\<rparr>))) = RATES
   \<and> \<not> wait_armed (snd (setRates (Fin 0) (Fin 0) (Fin 0) (Fin (1 / 2)) False default_response
                             (arming_navigation\<lparr>busy := False\<rparr>)))
   \<and> \<not> timer_running (snd (setRates (Fin 0) (Fin 0) (Fin 0) (Fin (1 / 2)) False default_response
                             (arming_navigation\<lparr>busy := False\<rparr>)))"
proof -
  have g: "busy arming_navigation"
    "\<not> TIMEOUT arming_navigation (state arming_navigation) (state_timeout (par arming_navigation))"
    "state_connected (content (state arming_navigation))"
    and m: "state_mode (content (state arming_navigation)) = ''POSCTL''"
    and k: "setpoint_type arming_navigation = NAVIGATE" "wait_armed arming_navigation"
      "timer_running arming_navigation"
    by (simp_all add: arming_navigation_def grounded_def example_state_def main_state_def
          default_params_def state_msg_def TIMEOUT_def)
  show ?thesis
    using busy_cleared_by_rejection [OF g, of "Fin 0" "Fin 0" "Fin 0" "Fin (1 / 2)"] k
    by (simp add: m)
qed

end
